theory Spec2Isabelle
  imports Complex_Main "HOL-Library.Multiset" "HOL-Library.Log_Nat"
begin

section \<open>Errors and store mode\<close>

text \<open>
  The routes answer 400 (validation), 404 (unknown id), 409 (duplicate email) and 500
  (anything thrown inside the handler). The mode is what \<^verbatim>\<open>shouldUseMock()\<close> and
  \<^verbatim>\<open>useMockDatabase\<close> decide once at start-up.
\<close>

datatype error = ValidationError string | NotFound | Conflict | Internal

datatype mode = Live | Fallback

definition bind_err :: "error + 'a \<Rightarrow> ('a \<Rightarrow> error + 'b) \<Rightarrow> error + 'b" where
  "bind_err r f = (case r of Inl e \<Rightarrow> Inl e | Inr x \<Rightarrow> f x)"

section \<open>Transaction service: validation and amount normalisation\<close>

text \<open>
  Amounts are JavaScript numbers in the source; they are modelled as exact rationals, and
  sums of amounts are exact sums. The rounding of IEEE doubles is modelled apart, by
  \<open>double_round\<close> and \<open>double_sum\<close> of the section on summaries, which tell when the sum
  that the code computes is the exact one. Dates are milliseconds since the epoch.
\<close>

record body =
  b_userId :: "string option"
  b_amount :: "rat option"
  b_description :: "string option"
  b_category :: "string option"
  b_type :: "string option"
  b_date :: "int option"
  b_tags :: "string list option"
  b_isRecurring :: "bool option"
  b_recurringPeriod :: "string option"

record tx_value =
  v_userId :: string
  v_amount :: rat
  v_description :: string
  v_category :: string
  v_type :: string
  v_date :: "int option"
  v_tags :: "string list option"
  v_isRecurring :: "bool option"
  v_recurringPeriod :: "string option"

definition categories :: "string list" where
  "categories = [''food'', ''transport'', ''entertainment'', ''shopping'', ''bills'',
     ''health'', ''education'', ''salary'', ''freelance'', ''investment'', ''gift'', ''other'']"

definition types :: "string list" where
  "types = [''income'', ''expense'']"

definition periods :: "string list" where
  "periods = [''daily'', ''weekly'', ''monthly'', ''yearly'']"

text \<open>\<^verbatim>\<open>Joi.string().required()\<close>: the key must be there and must not be the empty string.\<close>

fun joi_string :: "string \<Rightarrow> string option \<Rightarrow> error + string" where
  "joi_string k None = Inl (ValidationError k)"
| "joi_string k (Some s) = (if s = [] then Inl (ValidationError k) else Inr s)"

text \<open>\<^verbatim>\<open>Joi.number().not(0).required()\<close>\<close>

fun joi_amount :: "rat option \<Rightarrow> error + rat" where
  "joi_amount None = Inl (ValidationError ''amount'')"
| "joi_amount (Some a) = (if a = 0 then Inl (ValidationError ''amount'') else Inr a)"

text \<open>\<^verbatim>\<open>Joi.string().max(200).required()\<close>\<close>

definition joi_description :: "string option \<Rightarrow> error + string" where
  "joi_description d =
     bind_err (joi_string ''description'' d)
       (\<lambda>s. if length s > 200 then Inl (ValidationError ''description'') else Inr s)"

text \<open>\<^verbatim>\<open>Joi.string().valid(...).required()\<close> and \<^verbatim>\<open>Joi.string().valid(...).optional()\<close>\<close>

fun joi_valid :: "string \<Rightarrow> string list \<Rightarrow> string option \<Rightarrow> error + string" where
  "joi_valid k allowed None = Inl (ValidationError k)"
| "joi_valid k allowed (Some s) = (if s \<in> set allowed then Inr s else Inl (ValidationError k))"

fun joi_valid_optional :: "string \<Rightarrow> string list \<Rightarrow> string option \<Rightarrow> error + string option" where
  "joi_valid_optional k allowed None = Inr None"
| "joi_valid_optional k allowed (Some s) =
     (if s \<in> set allowed then Inr (Some s) else Inl (ValidationError k))"

text \<open>\<^verbatim>\<open>Joi.array().items(Joi.string()).optional()\<close>\<close>

fun joi_tags :: "string list option \<Rightarrow> error + string list option" where
  "joi_tags None = Inr None"
| "joi_tags (Some ts) = (if [] \<in> set ts then Inl (ValidationError ''tags'') else Inr (Some ts))"

text \<open>
  \<^verbatim>\<open>transactionSchema.validate(req.body)\<close> of routes/transactionRoutes.js: the keys are
  checked in the order of the schema and the first failure is reported. \<^verbatim>\<open>isRecurring\<close>
  and \<^verbatim>\<open>recurringPeriod\<close> are both \<^verbatim>\<open>optional()\<close> and unrelated to each other.
\<close>

definition transactionSchema_validate :: "body \<Rightarrow> error + tx_value" where
  "transactionSchema_validate b =
     bind_err (joi_string ''userId'' (b_userId b)) (\<lambda>u.
     bind_err (joi_amount (b_amount b)) (\<lambda>a.
     bind_err (joi_description (b_description b)) (\<lambda>d.
     bind_err (joi_valid ''category'' categories (b_category b)) (\<lambda>c.
     bind_err (joi_valid ''type'' types (b_type b)) (\<lambda>ty.
     bind_err (joi_tags (b_tags b)) (\<lambda>tg.
     bind_err (joi_valid_optional ''recurringPeriod'' periods (b_recurringPeriod b)) (\<lambda>rp.
       Inr \<lparr>v_userId = u, v_amount = a, v_description = d, v_category = c, v_type = ty,
            v_date = b_date b, v_tags = tg, v_isRecurring = b_isRecurring b,
            v_recurringPeriod = rp\<rparr>)))))))"

text \<open>The sign adjustment of \<^verbatim>\<open>router.post('/')\<close> and \<^verbatim>\<open>router.put('/:id')\<close>.\<close>

definition adjust_amount :: "tx_value \<Rightarrow> tx_value" where
  "adjust_amount v =
     (if v_type v = ''expense'' \<and> v_amount v > 0 then v\<lparr>v_amount := - \<bar>v_amount v\<bar>\<rparr>
      else if v_type v = ''income'' \<and> v_amount v < 0 then v\<lparr>v_amount := \<bar>v_amount v\<bar>\<rparr>
      else v)"

section \<open>Transaction service: the stored document and the two stores\<close>

record transaction =
  t_id :: string
  userId :: string
  amount :: rat
  description :: string
  category :: string
  type :: string
  date :: int
  tags :: "string list"
  isRecurring :: bool
  recurringPeriod :: "string option"
  createdAt :: int
  updatedAt :: int

text \<open>
  The constructor of \<^verbatim>\<open>MockTransaction\<close>; \<open>newid\<close> is the value of \<^verbatim>\<open>randomUUID()\<close> and
  \<open>now\<close> that of \<^verbatim>\<open>new Date()\<close>. A mongoose document built from the schema gets the
  same defaults (\<^verbatim>\<open>date\<close>, \<^verbatim>\<open>isRecurring\<close>, the empty \<^verbatim>\<open>tags\<close> array, the timestamps).
\<close>

definition MockTransaction :: "string \<Rightarrow> int \<Rightarrow> tx_value \<Rightarrow> transaction" where
  "MockTransaction newid now data =
     \<lparr>t_id = newid, userId = v_userId data, amount = v_amount data,
      description = v_description data, category = v_category data, type = v_type data,
      date = (case v_date data of Some d \<Rightarrow> d | None \<Rightarrow> now),
      tags = (case v_tags data of Some ts \<Rightarrow> ts | None \<Rightarrow> []),
      isRecurring = (case v_isRecurring data of Some r \<Rightarrow> r | None \<Rightarrow> False),
      recurringPeriod = v_recurringPeriod data, createdAt = now, updatedAt = now\<rparr>"

text \<open>
  \<^verbatim>\<open>mockTransactions.set(id, t)\<close> on a JavaScript Map, kept as the list of its values in
  insertion order: an existing key keeps its place, a new key goes to the end.
\<close>

fun map_set :: "transaction list \<Rightarrow> transaction \<Rightarrow> transaction list" where
  "map_set [] t = [t]"
| "map_set (x # xs) t = (if t_id x = t_id t then t # xs else x # map_set xs t)"

definition findById :: "string \<Rightarrow> transaction list \<Rightarrow> transaction option" where
  "findById i store = find (\<lambda>t. t_id t = i) store"

text \<open>
  The validators of the mongoose schema in models/Transaction.js, run by \<^verbatim>\<open>save()\<close> in
  live mode: \<^verbatim>\<open>recurringPeriod\<close> is required when \<^verbatim>\<open>isRecurring\<close> holds. The setters
  \<^verbatim>\<open>trim\<close> and \<^verbatim>\<open>lowercase\<close> on description and tags touch neither amount nor type and
  are left out.
\<close>

definition schema_validate :: "transaction \<Rightarrow> bool" where
  "schema_validate t \<longleftrightarrow>
     userId t \<noteq> [] \<and> amount t \<noteq> 0 \<and> description t \<noteq> [] \<and> length (description t) \<le> 200 \<and>
     category t \<in> set categories \<and> type t \<in> set types \<and>
     (case recurringPeriod t of None \<Rightarrow> \<not> isRecurring t | Some p \<Rightarrow> p \<in> set periods)"

text \<open>
  \<^verbatim>\<open>transaction.save()\<close>: the fallback stores the object as it is; the live store validates
  it against the schema first, and a failure is thrown into the handler's \<^verbatim>\<open>catch\<close>.
\<close>

definition save :: "mode \<Rightarrow> transaction \<Rightarrow> transaction list \<Rightarrow> (error + transaction) \<times> transaction list" where
  "save m t store =
     (case m of
        Fallback \<Rightarrow> (Inr t, map_set store t)
      | Live \<Rightarrow>
          if schema_validate t \<and> findById (t_id t) store = None then (Inr t, store @ [t])
          else (Inl Internal, store))"

text \<open>\<^verbatim>\<open>router.post('/')\<close>\<close>

definition create_transaction ::
  "mode \<Rightarrow> string \<Rightarrow> int \<Rightarrow> body \<Rightarrow> transaction list \<Rightarrow> (error + transaction) \<times> transaction list" where
  "create_transaction m newid now b store =
     (case transactionSchema_validate b of
        Inl e \<Rightarrow> (Inl e, store)
      | Inr v \<Rightarrow> save m (MockTransaction newid now (adjust_amount v)) store)"

text \<open>\<^verbatim>\<open>Object.assign(transaction, update)\<close>: the keys present in the update overwrite.\<close>

definition assign :: "transaction \<Rightarrow> tx_value \<Rightarrow> transaction" where
  "assign t u =
     t\<lparr>userId := v_userId u, amount := v_amount u, description := v_description u,
       category := v_category u, type := v_type u,
       date := (case v_date u of Some d \<Rightarrow> d | None \<Rightarrow> date t),
       tags := (case v_tags u of Some ts \<Rightarrow> ts | None \<Rightarrow> tags t),
       isRecurring := (case v_isRecurring u of Some r \<Rightarrow> r | None \<Rightarrow> isRecurring t),
       recurringPeriod := (case v_recurringPeriod u of Some p \<Rightarrow> Some p | None \<Rightarrow> recurringPeriod t)\<rparr>"

text \<open>
  \<^verbatim>\<open>findByIdAndUpdate(id, update, {new: true, runValidators: true})\<close>. The fallback assigns
  and stamps \<^verbatim>\<open>updatedAt\<close>; the live store sets the same paths, and its update validators
  look at the paths of the update only.
\<close>

definition update_validators :: "tx_value \<Rightarrow> bool" where
  "update_validators u \<longleftrightarrow>
     v_amount u \<noteq> 0 \<and> length (v_description u) \<le> 200 \<and>
     v_category u \<in> set categories \<and> v_type u \<in> set types \<and>
     (case v_recurringPeriod u of None \<Rightarrow> True | Some p \<Rightarrow> p \<in> set periods)"

definition findByIdAndUpdate ::
  "mode \<Rightarrow> string \<Rightarrow> tx_value \<Rightarrow> int \<Rightarrow> transaction list \<Rightarrow> (error + transaction option) \<times> transaction list" where
  "findByIdAndUpdate m i u now store =
     (if m = Live \<and> \<not> update_validators u then (Inl Internal, store)
      else case findById i store of
             None \<Rightarrow> (Inr None, store)
           | Some t \<Rightarrow> (let t' = (assign t u)\<lparr>updatedAt := now\<rparr>
                       in (Inr (Some t'), map_set store t')))"

text \<open>\<^verbatim>\<open>router.put('/:id')\<close>\<close>

definition update_transaction ::
  "mode \<Rightarrow> string \<Rightarrow> int \<Rightarrow> body \<Rightarrow> transaction list \<Rightarrow> (error + transaction) \<times> transaction list" where
  "update_transaction m i now b store =
     (case transactionSchema_validate b of
        Inl e \<Rightarrow> (Inl e, store)
      | Inr v \<Rightarrow>
          (case findByIdAndUpdate m i (adjust_amount v) now store of
             (Inl e, store') \<Rightarrow> (Inl e, store')
           | (Inr None, store') \<Rightarrow> (Inl NotFound, store')
           | (Inr (Some t), store') \<Rightarrow> (Inr t, store')))"

section \<open>Transaction service: summaries\<close>

text \<open>
  The filter both summaries start from: \<^verbatim>\<open>$match\<close> in the live pipelines and the
  \<^verbatim>\<open>.filter\<close> of the mock functions.
\<close>

definition in_window :: "string \<Rightarrow> int \<Rightarrow> int \<Rightarrow> transaction \<Rightarrow> bool" where
  "in_window owner startDate endDate t \<longleftrightarrow>
     userId t = owner \<and> date t \<ge> startDate \<and> date t \<le> endDate"

record 'i group =
  g_id :: 'i
  g_total :: rat
  g_count :: nat

record avg_group = "string group" +
  avgAmount :: rat

text \<open>
  The reducers of \<^verbatim>\<open>getMockFinancialSummary\<close> and \<^verbatim>\<open>getMockCategorySummary\<close>. The
  accumulator object is the list of its (key, value) pairs in insertion order, which is
  the order of \<^verbatim>\<open>Object.values\<close>. Both reducers do the same with a different key and a
  different initial group, so the step is written once: \<open>key\<close> is the property name
  (\<^verbatim>\<open>t.type\<close>, or the template string of category and type) and \<open>init\<close> the object
  stored when the key is new. This is the behaviour of a JavaScript object for keys that
  are neither array indices nor names of \<^verbatim>\<open>Object.prototype\<close>, as the values of the
  schema's enumerations are.
\<close>

definition bump :: "('i, 'z) group_scheme \<Rightarrow> transaction \<Rightarrow> ('i, 'z) group_scheme" where
  "bump g t = g\<lparr>g_total := g_total g + amount t, g_count := g_count g + 1\<rparr>"

fun reduce_step ::
  "(transaction \<Rightarrow> string) \<Rightarrow> (transaction \<Rightarrow> ('i, 'z) group_scheme) \<Rightarrow>
   (string \<times> ('i, 'z) group_scheme) list \<Rightarrow> transaction \<Rightarrow> (string \<times> ('i, 'z) group_scheme) list" where
  "reduce_step key init [] t = [(key t, bump (init t) t)]"
| "reduce_step key init ((k, g) # acc) t =
     (if k = key t then (k, bump g t) # acc else (k, g) # reduce_step key init acc t)"

definition getMockFinancialSummary :: "string \<Rightarrow> int \<Rightarrow> int \<Rightarrow> transaction list \<Rightarrow> avg_group list" where
  "getMockFinancialSummary owner startDate endDate store =
     (let transactions = filter (in_window owner startDate endDate) store;
          summary = foldl (reduce_step type
                      (\<lambda>t. \<lparr>g_id = type t, g_total = 0, g_count = 0, avgAmount = 0\<rparr>)) [] transactions
      in map (\<lambda>(k, s). s\<lparr>avgAmount := g_total s / of_nat (g_count s)\<rparr>) summary)"

definition category_key :: "transaction \<Rightarrow> string" where
  "category_key t = category t @ ''-'' @ type t"

definition getMockCategorySummary ::
  "string \<Rightarrow> int \<Rightarrow> int \<Rightarrow> transaction list \<Rightarrow> (string \<times> string) group list" where
  "getMockCategorySummary owner startDate endDate store =
     (let transactions = filter (in_window owner startDate endDate) store;
          summary = foldl (reduce_step category_key
                      (\<lambda>t. \<lparr>g_id = (category t, type t), g_total = 0, g_count = 0\<rparr>)) [] transactions
      in sort_key (\<lambda>g. - g_total g) (map snd summary))"

text \<open>
  The live pipelines. \<^verbatim>\<open>$group\<close> yields one document per distinct \<^verbatim>\<open>_id\<close>, with
  \<^verbatim>\<open>$sum\<close>, the count and \<^verbatim>\<open>$avg\<close> over the documents of the group; the order of its
  output is not specified by the store, and the order chosen here is one of them.
  \<^verbatim>\<open>$sort: {total: -1}\<close> orders by descending total.
\<close>

definition group_stage :: "(transaction \<Rightarrow> 'i) \<Rightarrow> transaction list \<Rightarrow> 'i group list" where
  "group_stage idf docs =
     map (\<lambda>i. let ds = filter (\<lambda>d. idf d = i) docs
              in \<lparr>g_id = i, g_total = sum_list (map amount ds), g_count = length ds\<rparr>)
         (remdups (map idf docs))"

definition with_avg :: "string group \<Rightarrow> avg_group" where
  "with_avg g = \<lparr>g_id = g_id g, g_total = g_total g, g_count = g_count g,
                 avgAmount = g_total g / of_nat (g_count g)\<rparr>"

definition getFinancialSummary :: "mode \<Rightarrow> string \<Rightarrow> int \<Rightarrow> int \<Rightarrow> transaction list \<Rightarrow> avg_group list" where
  "getFinancialSummary m owner startDate endDate store =
     (case m of
        Fallback \<Rightarrow> getMockFinancialSummary owner startDate endDate store
      | Live \<Rightarrow> map with_avg (group_stage type (filter (in_window owner startDate endDate) store)))"

definition getCategorySummary ::
  "mode \<Rightarrow> string \<Rightarrow> int \<Rightarrow> int \<Rightarrow> transaction list \<Rightarrow> (string \<times> string) group list" where
  "getCategorySummary m owner startDate endDate store =
     (case m of
        Fallback \<Rightarrow> getMockCategorySummary owner startDate endDate store
      | Live \<Rightarrow> sort_key (\<lambda>g. - g_total g)
                 (group_stage (\<lambda>d. (category d, type d)) (filter (in_window owner startDate endDate) store)))"

text \<open>
  \<^verbatim>\<open>router.get('/user/:userId/summary')\<close>. The start of the window is computed with the
  calendar arithmetic of JavaScript dates (\<^verbatim>\<open>setDate\<close>, \<^verbatim>\<open>setFullYear\<close>), which is a
  parameter here; an unknown period is treated as 30 days.
\<close>

record calendar =
  minus_days :: "int \<Rightarrow> nat \<Rightarrow> int"
  minus_year :: "int \<Rightarrow> int"

definition period_start :: "calendar \<Rightarrow> string \<Rightarrow> int \<Rightarrow> int" where
  "period_start cal period now =
     (if period = ''7d'' then minus_days cal now 7
      else if period = ''30d'' then minus_days cal now 30
      else if period = ''90d'' then minus_days cal now 90
      else if period = ''1y'' then minus_year cal now
      else minus_days cal now 30)"

record summary =
  income :: rat
  expenses :: rat
  balance :: rat
  total_transactions :: nat

record summary_response =
  r_period :: string
  r_summary :: summary
  r_categories :: "(string \<times> string) group list"

text \<open>\<^verbatim>\<open>summary.find(s => s._id === k)?.total || 0\<close>\<close>

definition find_total :: "string \<Rightarrow> avg_group list \<Rightarrow> rat" where
  "find_total k summary = (case find (\<lambda>s. g_id s = k) summary of None \<Rightarrow> 0 | Some s \<Rightarrow> g_total s)"

definition get_summary ::
  "mode \<Rightarrow> calendar \<Rightarrow> int \<Rightarrow> string \<Rightarrow> string \<Rightarrow> transaction list \<Rightarrow> error + summary_response" where
  "get_summary m cal now owner period store =
     (let endDate = now;
          startDate = period_start cal period now;
          summary = getFinancialSummary m owner startDate endDate store;
          categorySummary = getCategorySummary m owner startDate endDate store;
          income = find_total ''income'' summary;
          expenses = \<bar>find_total ''expense'' summary\<bar>;
          balance = income - expenses
      in Inr \<lparr>r_period = period,
              r_summary = \<lparr>income = income, expenses = expenses, balance = balance,
                           total_transactions = foldl (\<lambda>acc s. acc + g_count s) 0 summary\<rparr>,
              r_categories = categorySummary\<rparr>)"

text \<open>
  \<^verbatim>\<open>router.get('/user/:userId/categories')\<close> calls \<^verbatim>\<open>Transaction.aggregate\<close> with a
  pipeline that groups by category, counts, sums the absolute amounts, sorts by
  descending count and keeps ten. \<^verbatim>\<open>MockTransaction.aggregate\<close> ignores its pipeline and
  returns the empty array. The window is passed in as computed by the route.
\<close>

record top_category =
  tc_id :: string
  tc_count :: nat
  total_amount :: rat

definition top_categories_pipeline :: "string \<Rightarrow> int \<Rightarrow> int \<Rightarrow> transaction list \<Rightarrow> top_category list" where
  "top_categories_pipeline owner startDate endDate store =
     (let docs = filter (in_window owner startDate endDate) store;
          groups = map (\<lambda>c. let ds = filter (\<lambda>d. category d = c) docs
                            in \<lparr>tc_id = c, tc_count = length ds,
                                total_amount = sum_list (map (\<lambda>d. \<bar>amount d\<bar>) ds)\<rparr>)
                       (remdups (map category docs))
      in take 10 (sort_key (\<lambda>g. - int (tc_count g)) groups))"

definition get_categories :: "mode \<Rightarrow> string \<Rightarrow> int \<Rightarrow> int \<Rightarrow> transaction list \<Rightarrow> error + top_category list" where
  "get_categories m owner startDate endDate store =
     (case m of
        Fallback \<Rightarrow> Inr []
      | Live \<Rightarrow> Inr (top_categories_pipeline owner startDate endDate store))"

text \<open>
  The sums of the code are sums of doubles. \<open>double_round\<close> is the double nearest to a
  rational, ties to the even significand of 53 bits (the range of the exponent is not
  modelled: amounts are far from overflow and underflow); \<open>double_sum\<close> is a total as
  \<^verbatim>\<open>acc.total += t.amount\<close> accumulates it from 0, each addition rounded. The live \<^verbatim>\<open>$sum\<close>
  adds the same amounts in an order that the store chooses.
\<close>

definition floor_log2 :: "rat \<Rightarrow> int" where
  "floor_log2 x =
     (if 1 \<le> \<bar>x\<bar> then bitlen \<lfloor>\<bar>x\<bar>\<rfloor> - 1 else - bitlen (\<lceil>1 / \<bar>x\<bar>\<rceil> - 1))"

definition round_half_even :: "rat \<Rightarrow> int" where
  "round_half_even y =
     (let f = \<lfloor>y\<rfloor>; d = y - of_int f
      in if d < 1 / 2 then f else if 1 / 2 < d then f + 1 else if even f then f else f + 1)"

definition double_round :: "rat \<Rightarrow> rat" where
  "double_round x =
     (if x = 0 then 0
      else (let e = floor_log2 x - 52
            in of_int (round_half_even (x / power_int 2 e)) * power_int 2 e))"

definition double_sum :: "rat list \<Rightarrow> rat" where
  "double_sum xs = foldl (\<lambda>a x. double_round (a + x)) 0 xs"

section \<open>Transaction service: listing with filter and pages\<close>

text \<open>
  The filter object that \<^verbatim>\<open>router.get('/user/:userId')\<close> builds from the query: category
  and type are set when the query parameter is truthy (present and not empty), the date
  bounds when given. Dates arrive here already parsed.
\<close>

record query_filter =
  f_userId :: string
  f_category :: "string option"
  f_type :: "string option"
  f_gte :: "int option"
  f_lte :: "int option"

definition truthy :: "string option \<Rightarrow> bool" where
  "truthy q = (case q of None \<Rightarrow> False | Some s \<Rightarrow> s \<noteq> [])"

definition build_filter ::
  "string \<Rightarrow> string option \<Rightarrow> string option \<Rightarrow> int option \<Rightarrow> int option \<Rightarrow> query_filter" where
  "build_filter owner category' type' startDate endDate =
     \<lparr>f_userId = owner,
      f_category = (if truthy category' then category' else None),
      f_type = (if truthy type' then type' else None),
      f_gte = startDate, f_lte = endDate\<rparr>"

text \<open>
  \<^verbatim>\<open>MockTransaction.find(filter)\<close>: every key of the filter that is truthy narrows the
  list of values of the Map, in insertion order.
\<close>

definition MockTransaction_find :: "query_filter \<Rightarrow> transaction list \<Rightarrow> transaction list" where
  "MockTransaction_find f store =
     (let transactions = store;
          transactions = (if f_userId f \<noteq> [] then filter (\<lambda>t. userId t = f_userId f) transactions
                          else transactions);
          transactions = (if truthy (f_category f)
                          then filter (\<lambda>t. Some (category t) = f_category f) transactions
                          else transactions);
          transactions = (if truthy (f_type f)
                          then filter (\<lambda>t. Some (type t) = f_type f) transactions
                          else transactions);
          transactions = (case f_gte f of Some d \<Rightarrow> filter (\<lambda>t. date t \<ge> d) transactions
                          | None \<Rightarrow> transactions);
          transactions = (case f_lte f of Some d \<Rightarrow> filter (\<lambda>t. date t \<le> d) transactions
                          | None \<Rightarrow> transactions)
      in transactions)"

text \<open>The same filter document as a query of the live store: all its keys must match.\<close>

definition matches :: "query_filter \<Rightarrow> transaction \<Rightarrow> bool" where
  "matches f t \<longleftrightarrow>
     userId t = f_userId f \<and>
     (case f_category f of None \<Rightarrow> True | Some c \<Rightarrow> category t = c) \<and>
     (case f_type f of None \<Rightarrow> True | Some ty \<Rightarrow> type t = ty) \<and>
     (case f_gte f of None \<Rightarrow> True | Some d \<Rightarrow> date t \<ge> d) \<and>
     (case f_lte f of None \<Rightarrow> True | Some d \<Rightarrow> date t \<le> d)"

text \<open>
  The route's \<^verbatim>\<open>await Transaction.find(filter).sort({date: -1}).limit(limit * 1).skip((page - 1) * limit).lean()\<close>.
  The live store sorts by descending date, skips and then limits, whatever the order of
  the calls; a negative skip is an error and a limit of 0 means no limit. In fallback
  mode \<^verbatim>\<open>MockTransaction.find\<close> is declared \<^verbatim>\<open>async\<close>, so what the route calls \<^verbatim>\<open>.sort\<close> on
  is a promise, which has no such method: the call throws and the handler's \<^verbatim>\<open>catch\<close>
  answers 500. Only \<^verbatim>\<open>countDocuments\<close> awaits \<^verbatim>\<open>find\<close> before it walks the query object,
  whose \<^verbatim>\<open>sort\<close>, \<^verbatim>\<open>limit\<close> and \<^verbatim>\<open>skip\<close> ignore their arguments.
\<close>

definition find_chain ::
  "mode \<Rightarrow> query_filter \<Rightarrow> nat \<Rightarrow> nat \<Rightarrow> transaction list \<Rightarrow> error + transaction list" where
  "find_chain m f page limit store =
     (case m of
        Fallback \<Rightarrow> Inl Internal
      | Live \<Rightarrow>
          (let skip = (int page - 1) * int limit
           in if skip < 0 then Inl Internal
              else let sorted = sort_key (\<lambda>t. - date t) (filter (matches f) store);
                       skipped = drop (nat skip) sorted
                   in Inr (if limit = 0 then skipped else take limit skipped)))"

definition countDocuments :: "mode \<Rightarrow> query_filter \<Rightarrow> transaction list \<Rightarrow> nat" where
  "countDocuments m f store =
     (case m of
        Fallback \<Rightarrow> length (MockTransaction_find f store)
      | Live \<Rightarrow> length (filter (matches f) store))"

text \<open>
  \<^verbatim>\<open>Math.ceil(total / limit)\<close> of the route's pagination object (not a number when the limit
  is 0), and the concatenation of the pages 1 to \<open>n\<close>.
\<close>

definition pages :: "nat \<Rightarrow> nat \<Rightarrow> nat option" where
  "pages n limit = (if limit = 0 then None else Some ((n + limit - 1) div limit))"

definition all_pages :: "mode \<Rightarrow> query_filter \<Rightarrow> nat \<Rightarrow> nat \<Rightarrow> transaction list \<Rightarrow> transaction list" where
  "all_pages m f n limit store =
     concat (map (\<lambda>p. case find_chain m f p limit store of Inl e \<Rightarrow> [] | Inr ts \<Rightarrow> ts) [1..<Suc n])"

text \<open>
  \<^verbatim>\<open>router.get('/user/:userId')\<close>: the page of transactions and the pagination object, or
  500 when the query throws.
\<close>

record pagination =
  pg_current :: nat
  pg_pages :: "nat option"
  pg_total :: nat

definition get_user_transactions ::
  "mode \<Rightarrow> string \<Rightarrow> nat \<Rightarrow> nat \<Rightarrow> string option \<Rightarrow> string option \<Rightarrow> int option \<Rightarrow> int option \<Rightarrow>
   transaction list \<Rightarrow> error + transaction list \<times> pagination" where
  "get_user_transactions m owner page limit category' type' startDate endDate store =
     (let f = build_filter owner category' type' startDate endDate
      in case find_chain m f page limit store of
           Inl e \<Rightarrow> Inl Internal
         | Inr transactions \<Rightarrow>
             (let n = countDocuments m f store
              in Inr (transactions, \<lparr>pg_current = page, pg_pages = pages n limit, pg_total = n\<rparr>)))"

section \<open>User service: profile completion\<close>

text \<open>
  The row read by \<^verbatim>\<open>router.get('/stats/:id')\<close>; a column of the left join that is NULL
  (or a key that is missing) is \<open>None\<close>, and \<^verbatim>\<open>null > 0\<close> is false in JavaScript.
\<close>

record stats =
  monthly_income :: "rat option"
  spending_limit :: "rat option"

definition js_positive :: "rat option \<Rightarrow> bool" where
  "js_positive x = (case x of None \<Rightarrow> False | Some r \<Rightarrow> r > 0)"

definition calculateProfileCompletion :: "'a stats_scheme \<Rightarrow> int" where
  "calculateProfileCompletion s =
     (let completion = 30;
          completion = (if js_positive (monthly_income s) then completion + 35 else completion);
          completion = (if js_positive (spending_limit s) then completion + 35 else completion)
      in min completion 100)"

section \<open>User service: tables, rows and the two pools\<close>

text \<open>
  The tables \<^verbatim>\<open>users\<close> and \<^verbatim>\<open>user_profiles\<close> of config/database.js, as lists of rows
  in insertion order (the values of the two Maps of \<^verbatim>\<open>mockDatabase\<close>, the rows of the SQL
  tables). A column that may be NULL, or a key that a mock object may lack, is an option:
  the mock never sets \<^verbatim>\<open>updated_at\<close> nor \<^verbatim>\<open>financial_goals\<close>. Ids are taken to be
  well-formed unique identifiers. The live store compares the column \<^verbatim>\<open>users.email\<close> by
  the collation of the database, which the sources do not fix: it is the field
  \<open>email_collation\<close>, read by the live statements only (the mock compares with \<^verbatim>\<open>===\<close>).
\<close>

record user =
  uid :: string
  email :: string
  password :: string
  name :: string
  age :: "int option"
  created_at :: int
  updated_at :: "int option"
  is_active :: bool

record profile =
  pid :: string
  user_id :: string
  p_monthly_income :: "rat option"
  p_financial_goals :: "string option"
  p_spending_limit :: "rat option"
  p_updated_at :: "int option"

record database =
  users :: "user list"
  user_profiles :: "profile list"
  email_collation :: "string \<Rightarrow> string \<Rightarrow> bool"

text \<open>
  A row of a record set: the columns of the user, the columns of the profile that the
  routes read (\<^verbatim>\<open>stats\<close> holds \<^verbatim>\<open>monthly_income\<close> and \<^verbatim>\<open>spending_limit\<close>), or an inserted
  profile. The computed column \<^verbatim>\<open>days_since_registration\<close> of the stats query is left out.
\<close>

record row = stats +
  financial_goals :: "string option"
  r_user :: "user option"
  r_profile :: "profile option"

definition user_row :: "user \<Rightarrow> row" where
  "user_row u = \<lparr>monthly_income = None, spending_limit = None, financial_goals = None,
                  r_user = Some u, r_profile = None\<rparr>"

definition profile_row :: "profile \<Rightarrow> row" where
  "profile_row p = \<lparr>monthly_income = p_monthly_income p, spending_limit = p_spending_limit p,
                     financial_goals = p_financial_goals p, r_user = None, r_profile = Some p\<rparr>"

text \<open>
  The parameters bound by \<^verbatim>\<open>request().input(name, type, value)\<close>; a parameter that is
  not bound, or bound to \<^verbatim>\<open>undefined\<close> or \<^verbatim>\<open>null\<close>, is \<open>None\<close>.
\<close>

record inputs =
  in_email :: "string option"
  in_password :: "string option"
  in_name :: "string option"
  in_age :: "int option"
  in_id :: "string option"
  in_user_id :: "string option"
  in_monthly_income :: "rat option"
  in_financial_goals :: "string option"
  in_spending_limit :: "rat option"

definition no_inputs :: inputs where
  "no_inputs = \<lparr>in_email = None, in_password = None, in_name = None, in_age = None,
     in_id = None, in_user_id = None, in_monthly_income = None, in_financial_goals = None,
     in_spending_limit = None\<rparr>"

text \<open>
  The statements that the user routes send, with the text of each (line breaks and
  indentation written as single spaces).
\<close>

datatype statement =
  SelectIdByEmail | InsertUser | InsertProfile | SelectProfile | UpdateUser | UpdateProfile | SelectStats

fun sql_text :: "statement \<Rightarrow> string" where
  "sql_text SelectIdByEmail = ''SELECT id FROM users WHERE email = @email''"
| "sql_text InsertUser =
     ''INSERT INTO users (email, password, name, age) OUTPUT inserted.id, inserted.email, inserted.name, inserted.age, inserted.created_at VALUES (@email, @password, @name, @age)''"
| "sql_text InsertProfile =
     ''INSERT INTO user_profiles (user_id, monthly_income, spending_limit) VALUES (@user_id, 0, 0)''"
| "sql_text SelectProfile =
     ''SELECT u.id, u.email, u.name, u.age, u.created_at, p.monthly_income, p.financial_goals, p.spending_limit FROM users u LEFT JOIN user_profiles p ON u.id = p.user_id WHERE u.id = @id AND u.is_active = 1''"
| "sql_text UpdateUser =
     ''UPDATE users SET name = COALESCE(@name, name), age = COALESCE(@age, age), updated_at = GETDATE() WHERE id = @id''"
| "sql_text UpdateProfile =
     ''UPDATE user_profiles SET monthly_income = COALESCE(@monthly_income, monthly_income), financial_goals = COALESCE(@financial_goals, financial_goals), spending_limit = COALESCE(@spending_limit, spending_limit), updated_at = GETDATE() WHERE user_id = @user_id''"
| "sql_text SelectStats =
     ''SELECT u.name, u.created_at, p.monthly_income, p.spending_limit, DATEDIFF(day, u.created_at, GETDATE()) as days_since_registration FROM users u LEFT JOIN user_profiles p ON u.id = p.user_id WHERE u.id = @id AND u.is_active = 1''"

text \<open>
  \<^verbatim>\<open>String.prototype.includes\<close>, by which the mock pool chooses what to do.
\<close>

fun starts_with :: "string \<Rightarrow> string \<Rightarrow> bool" where
  "starts_with s [] = True"
| "starts_with [] (p # ps) = False"
| "starts_with (c # cs) (p # ps) = (c = p \<and> starts_with cs ps)"

fun string_includes :: "string \<Rightarrow> string \<Rightarrow> bool" where
  "string_includes [] sub = (sub = [])"
| "string_includes (c # cs) sub = (starts_with (c # cs) sub \<or> string_includes cs sub)"

text \<open>
  \<^verbatim>\<open>Map.set\<close> on the two tables, and the JavaScript idioms \<^verbatim>\<open>x || 0\<close> and \<^verbatim>\<open>x || null\<close>.
  \<open>js_string\<close> reads a bound string parameter; the routes always bind the ones used.
\<close>

fun users_set :: "user list \<Rightarrow> user \<Rightarrow> user list" where
  "users_set [] u = [u]"
| "users_set (x # xs) u = (if uid x = uid u then u # xs else x # users_set xs u)"

fun profiles_set :: "profile list \<Rightarrow> profile \<Rightarrow> profile list" where
  "profiles_set [] p = [p]"
| "profiles_set (x # xs) p = (if pid x = pid p then p # xs else x # profiles_set xs p)"

definition js_or_zero :: "rat option \<Rightarrow> rat" where
  "js_or_zero x = (case x of None \<Rightarrow> 0 | Some r \<Rightarrow> r)"

definition js_or_null :: "string option \<Rightarrow> string option" where
  "js_or_null x = (case x of None \<Rightarrow> None | Some s \<Rightarrow> if s = [] then None else Some s)"

definition js_string :: "string option \<Rightarrow> string" where
  "js_string x = (case x of None \<Rightarrow> [] | Some s \<Rightarrow> s)"

text \<open>
  \<^verbatim>\<open>query\<close> of \<^verbatim>\<open>createMockPool\<close>: the four branches in the order of the source, tried on
  the text of the query, and the empty record set for everything else. \<open>newid\<close> is the
  value of \<^verbatim>\<open>randomUUID()\<close> and \<open>now\<close> that of \<^verbatim>\<open>new Date()\<close>.
\<close>

definition mock_query :: "string \<Rightarrow> inputs \<Rightarrow> string \<Rightarrow> int \<Rightarrow> database \<Rightarrow> row list \<times> database" where
  "mock_query queryString ins newid now db =
     (if string_includes queryString ''SELECT'' \<and> string_includes queryString ''users'' \<and>
         string_includes queryString ''email''
      then (case find (\<lambda>u. Some (email u) = in_email ins) (users db) of
              Some u \<Rightarrow> ([user_row u], db)
            | None \<Rightarrow> ([], db))
      else if string_includes queryString ''INSERT INTO users''
      then (let user = \<lparr>uid = newid, email = js_string (in_email ins),
                         password = js_string (in_password ins), name = js_string (in_name ins),
                         age = in_age ins, created_at = now, updated_at = None,
                         is_active = True\<rparr>
            in ([user_row user], db\<lparr>users := users_set (users db) user\<rparr>))
      else if string_includes queryString ''INSERT INTO user_profiles''
      then (let profile = \<lparr>pid = newid, user_id = js_string (in_user_id ins),
                            p_monthly_income = Some (js_or_zero (in_monthly_income ins)),
                            p_financial_goals = None,
                            p_spending_limit = Some (js_or_zero (in_spending_limit ins)),
                            p_updated_at = None\<rparr>
            in ([profile_row profile], db\<lparr>user_profiles := profiles_set (user_profiles db) profile\<rparr>))
      else if string_includes queryString ''SELECT'' \<and> string_includes queryString ''user_profiles''
      then (let user = find (\<lambda>u. Some (uid u) = in_id ins) (users db);
                profile = find (\<lambda>p. Some (user_id p) = in_id ins) (user_profiles db)
            in case user of
                 Some u \<Rightarrow>
                   ([\<lparr>monthly_income =
                        Some (case profile of None \<Rightarrow> 0 | Some p \<Rightarrow> js_or_zero (p_monthly_income p)),
                      spending_limit =
                        Some (case profile of None \<Rightarrow> 0 | Some p \<Rightarrow> js_or_zero (p_spending_limit p)),
                      financial_goals =
                        (case profile of None \<Rightarrow> None | Some p \<Rightarrow> js_or_null (p_financial_goals p)),
                      r_user = Some u, r_profile = None\<rparr>], db)
               | None \<Rightarrow> ([], db))
      else ([], db))"

text \<open>
  The types that the routes bind their parameters with and that the table definitions
  give the columns. A parameter bound as \<^verbatim>\<open>sql.Int\<close> must lie in the 32-bit signed range,
  or the driver refuses it. A parameter bound as \<^verbatim>\<open>sql.Decimal(10, 2)\<close> is rounded by the
  driver to two decimals, half away from zero, and must then have at most eight digits
  before the point. A string stored in an \<^verbatim>\<open>NVARCHAR(255)\<close> column must not be longer than
  255 characters. Every refusal is an error thrown into the route's \<^verbatim>\<open>catch\<close>.
\<close>

definition fits_int :: "int \<Rightarrow> bool" where
  "fits_int a \<longleftrightarrow> - (2 ^ 31) \<le> a \<and> a < 2 ^ 31"

definition round_half_away :: "rat \<Rightarrow> int" where
  "round_half_away x = (if x < 0 then - \<lfloor>- x + 1 / 2\<rfloor> else \<lfloor>x + 1 / 2\<rfloor>)"

definition decimal_10_2 :: "rat \<Rightarrow> rat option" where
  "decimal_10_2 x =
     (let r = of_int (round_half_away (x * 100)) / 100
      in if \<bar>r\<bar> < 10 ^ 8 then Some r else None)"

definition fits_decimal :: "rat \<Rightarrow> bool" where
  "fits_decimal x \<longleftrightarrow> x * 100 \<in> \<int> \<and> \<bar>x\<bar> < 10 ^ 8"

definition bind_int :: "int option \<Rightarrow> error + int option" where
  "bind_int a =
     (case a of None \<Rightarrow> Inr None
      | Some n \<Rightarrow> if fits_int n then Inr (Some n) else Inl Internal)"

definition bind_decimal :: "rat option \<Rightarrow> error + rat option" where
  "bind_decimal x =
     (case x of None \<Rightarrow> Inr None
      | Some r \<Rightarrow> (case decimal_10_2 r of None \<Rightarrow> Inl Internal | Some d \<Rightarrow> Inr (Some d)))"

text \<open>
  The same statements on the live store, by the meaning of the SQL: \<^verbatim>\<open>COALESCE\<close> keeps
  the old value when the parameter is NULL, the left join gives NULL profile columns to a
  user without profile, \<^verbatim>\<open>email\<close> is unique under its collation, ids are primary keys and
  a profile needs its user. A violated constraint, like a value that does not fit its
  type, is an error thrown into the route's \<^verbatim>\<open>catch\<close>; a string too long for its column
  is one when a row is written.
\<close>

definition coalesce :: "'a option \<Rightarrow> 'a option \<Rightarrow> 'a option" where
  "coalesce a b = (case a of Some x \<Rightarrow> Some x | None \<Rightarrow> b)"

definition left_join :: "user \<Rightarrow> profile list \<Rightarrow> row list" where
  "left_join u ps =
     (case filter (\<lambda>p. user_id p = uid u) ps of
        [] \<Rightarrow> [\<lparr>monthly_income = None, spending_limit = None, financial_goals = None,
                r_user = Some u, r_profile = None\<rparr>]
      | qs \<Rightarrow> map (\<lambda>p. \<lparr>monthly_income = p_monthly_income p, spending_limit = p_spending_limit p,
                         financial_goals = p_financial_goals p, r_user = Some u,
                         r_profile = None\<rparr>) qs)"

definition select_join :: "inputs \<Rightarrow> database \<Rightarrow> row list" where
  "select_join ins db =
     concat (map (\<lambda>u. left_join u (user_profiles db))
       (filter (\<lambda>u. Some (uid u) = in_id ins \<and> is_active u) (users db)))"

definition same_email :: "database \<Rightarrow> string option \<Rightarrow> user \<Rightarrow> bool" where
  "same_email db e u = (case e of None \<Rightarrow> False | Some x \<Rightarrow> email_collation db (email u) x)"

fun live_query ::
  "statement \<Rightarrow> inputs \<Rightarrow> string \<Rightarrow> int \<Rightarrow> database \<Rightarrow> error + row list \<times> database" where
  "live_query SelectIdByEmail ins newid now db =
     Inr (map user_row (filter (same_email db (in_email ins)) (users db)), db)"
| "live_query InsertUser ins newid now db =
     (case (in_email ins, in_password ins, in_name ins) of
        (Some e, Some pw, Some n) \<Rightarrow>
          bind_err (bind_int (in_age ins)) (\<lambda>a.
            if length e > 255 \<or> length pw > 255 \<or> length n > 255 \<or>
               (\<exists>u\<in>set (users db). email_collation db (email u) e \<or> uid u = newid)
            then Inl Internal
            else (let user = \<lparr>uid = newid, email = e, password = pw, name = n, age = a,
                               created_at = now, updated_at = Some now, is_active = True\<rparr>
                  in Inr ([user_row user], db\<lparr>users := users db @ [user]\<rparr>)))
      | _ \<Rightarrow> Inl Internal)"
| "live_query InsertProfile ins newid now db =
     (case in_user_id ins of
        Some i \<Rightarrow>
          if (\<exists>u\<in>set (users db). uid u = i) \<and> \<not> (\<exists>p\<in>set (user_profiles db). pid p = newid)
          then Inr ([], db\<lparr>user_profiles := user_profiles db @
                  [\<lparr>pid = newid, user_id = i, p_monthly_income = Some 0, p_financial_goals = None,
                    p_spending_limit = Some 0, p_updated_at = Some now\<rparr>]\<rparr>)
          else Inl Internal
      | None \<Rightarrow> Inl Internal)"
| "live_query SelectProfile ins newid now db = Inr (select_join ins db, db)"
| "live_query SelectStats ins newid now db = Inr (select_join ins db, db)"
| "live_query UpdateUser ins newid now db =
     bind_err (bind_int (in_age ins)) (\<lambda>a.
       if (case in_name ins of
             Some n \<Rightarrow> length n > 255 \<and> (\<exists>u\<in>set (users db). Some (uid u) = in_id ins)
           | None \<Rightarrow> False)
       then Inl Internal
       else Inr ([], db\<lparr>users := map (\<lambda>u. if Some (uid u) = in_id ins
                                   then u\<lparr>name := (case in_name ins of Some n \<Rightarrow> n | None \<Rightarrow> name u),
                                          age := coalesce a (age u),
                                          updated_at := Some now\<rparr>
                                   else u) (users db)\<rparr>))"
| "live_query UpdateProfile ins newid now db =
     bind_err (bind_decimal (in_monthly_income ins)) (\<lambda>mi.
     bind_err (bind_decimal (in_spending_limit ins)) (\<lambda>sl.
       Inr ([], db\<lparr>user_profiles := map (\<lambda>p. if Some (user_id p) = in_user_id ins
                   then p\<lparr>p_monthly_income := coalesce mi (p_monthly_income p),
                          p_financial_goals := coalesce (in_financial_goals ins) (p_financial_goals p),
                          p_spending_limit := coalesce sl (p_spending_limit p),
                          p_updated_at := Some now\<rparr>
                   else p) (user_profiles db)\<rparr>)))"

text \<open>
  \<^verbatim>\<open>getPool().request()...query(text)\<close>: the mock pool when \<^verbatim>\<open>useMockDatabase\<close> is set.
\<close>

definition pool_query ::
  "mode \<Rightarrow> statement \<Rightarrow> inputs \<Rightarrow> string \<Rightarrow> int \<Rightarrow> database \<Rightarrow> error + row list \<times> database" where
  "pool_query m q ins newid now db =
     (case m of
        Fallback \<Rightarrow> Inr (mock_query (sql_text q) ins newid now db)
      | Live \<Rightarrow> live_query q ins newid now db)"

section \<open>User service: the routes\<close>

text \<open>
  A key of a JSON body is missing, \<^verbatim>\<open>null\<close> or a value; the update route tells the
  first from the other two (\<^verbatim>\<open>!== undefined\<close>), and SQL receives NULL for both.
\<close>

datatype 'a field = Undefined | Null | Value 'a

definition to_sql :: "'a field \<Rightarrow> 'a option" where
  "to_sql x = (case x of Value v \<Rightarrow> Some v | _ \<Rightarrow> None)"

text \<open>
  \<^verbatim>\<open>router.post('/register')\<close>. The check of the shape of an email address and the
  password hash come from libraries and are parameters; \<open>new_uid\<close> and \<open>new_pid\<close> are the
  ids generated for the user and the profile. The token of the answer is left out.
\<close>

record register_body =
  rb_email :: "string option"
  rb_password :: "string option"
  rb_name :: "string option"
  rb_age :: "int option"

record register_value =
  rv_email :: string
  rv_password :: string
  rv_name :: string
  rv_age :: "int option"

definition registerSchema_validate :: "(string \<Rightarrow> bool) \<Rightarrow> register_body \<Rightarrow> error + register_value" where
  "registerSchema_validate is_email b =
     bind_err (joi_string ''email'' (rb_email b)) (\<lambda>e.
     if \<not> is_email e then Inl (ValidationError ''email'') else
     bind_err (joi_string ''password'' (rb_password b)) (\<lambda>pw.
     if length pw < 6 then Inl (ValidationError ''password'') else
     bind_err (joi_string ''name'' (rb_name b)) (\<lambda>n.
     if length n < 2 then Inl (ValidationError ''name'') else
     (case rb_age b of
        Some a \<Rightarrow> if a < 13 \<or> a > 120 then Inl (ValidationError ''age'')
                  else Inr \<lparr>rv_email = e, rv_password = pw, rv_name = n, rv_age = Some a\<rparr>
      | None \<Rightarrow> Inr \<lparr>rv_email = e, rv_password = pw, rv_name = n, rv_age = None\<rparr>))))"

definition register ::
  "mode \<Rightarrow> (string \<Rightarrow> bool) \<Rightarrow> (string \<Rightarrow> string) \<Rightarrow> int \<Rightarrow> string \<Rightarrow> string \<Rightarrow> register_body \<Rightarrow>
   database \<Rightarrow> (error + user) \<times> database" where
  "register m is_email hash now new_uid new_pid b db =
     (case registerSchema_validate is_email b of
        Inl e \<Rightarrow> (Inl e, db)
      | Inr v \<Rightarrow>
         (case pool_query m SelectIdByEmail (no_inputs\<lparr>in_email := Some (rv_email v)\<rparr>) new_uid now db of
            Inl e \<Rightarrow> (Inl Internal, db)
          | Inr (existingUser, db1) \<Rightarrow>
              if length existingUser > 0 then (Inl Conflict, db1)
              else
               (case pool_query m InsertUser
                       (no_inputs\<lparr>in_email := Some (rv_email v),
                                  in_password := Some (hash (rv_password v)),
                                  in_name := Some (rv_name v), in_age := rv_age v\<rparr>)
                       new_uid now db1 of
                  Inl e \<Rightarrow> (Inl Internal, db1)
                | Inr (result, db2) \<Rightarrow>
                   (case result of
                      [] \<Rightarrow> (Inl Internal, db2)
                    | r # rs \<Rightarrow>
                       (case r_user r of
                          None \<Rightarrow> (Inl Internal, db2)
                        | Some user \<Rightarrow>
                           (case pool_query m InsertProfile
                                   (no_inputs\<lparr>in_user_id := Some (uid user)\<rparr>) new_pid now db2 of
                              Inl e \<Rightarrow> (Inl Internal, db2)
                            | Inr (rs', db3) \<Rightarrow> (Inr user, db3)))))))"

text \<open>
  \<^verbatim>\<open>router.get('/profile/:id')\<close> and \<^verbatim>\<open>router.get('/stats/:id')\<close>: the first row of the
  record set, or 404 when it is empty.
\<close>

record profile_response =
  pr_user :: "user option"
  pr_monthly_income :: "rat option"
  pr_financial_goals :: "string option"
  pr_spending_limit :: "rat option"

definition get_profile :: "mode \<Rightarrow> string \<Rightarrow> database \<Rightarrow> error + profile_response" where
  "get_profile m i db =
     (case pool_query m SelectProfile (no_inputs\<lparr>in_id := Some i\<rparr>) [] 0 db of
        Inl e \<Rightarrow> Inl Internal
      | Inr (result, db') \<Rightarrow>
          (case result of
             [] \<Rightarrow> Inl NotFound
           | user # rest \<Rightarrow>
               Inr \<lparr>pr_user = r_user user, pr_monthly_income = monthly_income user,
                    pr_financial_goals = financial_goals user,
                    pr_spending_limit = spending_limit user\<rparr>))"

record stats_response =
  st_user :: "user option"
  st_monthly_income :: "rat option"
  st_spending_limit :: "rat option"
  profile_completion :: int

definition get_stats :: "mode \<Rightarrow> string \<Rightarrow> database \<Rightarrow> error + stats_response" where
  "get_stats m i db =
     (case pool_query m SelectStats (no_inputs\<lparr>in_id := Some i\<rparr>) [] 0 db of
        Inl e \<Rightarrow> Inl Internal
      | Inr (result, db') \<Rightarrow>
          (case result of
             [] \<Rightarrow> Inl NotFound
           | stats # rest \<Rightarrow>
               Inr \<lparr>st_user = r_user stats, st_monthly_income = monthly_income stats,
                    st_spending_limit = spending_limit stats,
                    profile_completion = calculateProfileCompletion stats\<rparr>))"

text \<open>
  \<^verbatim>\<open>router.put('/profile/:id')\<close>: the user is updated when \<^verbatim>\<open>name\<close> is truthy or \<^verbatim>\<open>age\<close> is
  not undefined, the profile when one of its three fields is not undefined; the answer is
  a success whatever the statements changed, and 500 when one throws. The route does not
  validate the body: its fields are taken to be strings and numbers as the columns are,
  and \<open>fits_columns\<close> says that the values given fit the types they are bound with.
\<close>

record profile_update =
  pu_name :: "string field"
  pu_age :: "int field"
  pu_monthly_income :: "rat field"
  pu_financial_goals :: "string field"
  pu_spending_limit :: "rat field"

definition updates_user :: "profile_update \<Rightarrow> bool" where
  "updates_user b \<longleftrightarrow> (case pu_name b of Value n \<Rightarrow> n \<noteq> [] | _ \<Rightarrow> False) \<or> pu_age b \<noteq> Undefined"

definition updates_profile :: "profile_update \<Rightarrow> bool" where
  "updates_profile b \<longleftrightarrow>
     pu_monthly_income b \<noteq> Undefined \<or> pu_financial_goals b \<noteq> Undefined \<or>
     pu_spending_limit b \<noteq> Undefined"

definition fits_columns :: "profile_update \<Rightarrow> bool" where
  "fits_columns b \<longleftrightarrow>
     (case pu_name b of Value n \<Rightarrow> length n \<le> 255 | _ \<Rightarrow> True) \<and>
     (case pu_age b of Value a \<Rightarrow> fits_int a | _ \<Rightarrow> True) \<and>
     (case pu_monthly_income b of Value x \<Rightarrow> fits_decimal x | _ \<Rightarrow> True) \<and>
     (case pu_spending_limit b of Value x \<Rightarrow> fits_decimal x | _ \<Rightarrow> True)"

definition put_profile :: "mode \<Rightarrow> string \<Rightarrow> profile_update \<Rightarrow> int \<Rightarrow> database \<Rightarrow> (error + unit) \<times> database" where
  "put_profile m i b now db =
     (case (if updates_user b
            then pool_query m UpdateUser
                   (no_inputs\<lparr>in_id := Some i, in_name := to_sql (pu_name b),
                              in_age := to_sql (pu_age b)\<rparr>) [] now db
            else Inr ([], db)) of
        Inl e \<Rightarrow> (Inl Internal, db)
      | Inr (rs, db1) \<Rightarrow>
         (case (if updates_profile b
                then pool_query m UpdateProfile
                       (no_inputs\<lparr>in_user_id := Some i,
                                  in_monthly_income := to_sql (pu_monthly_income b),
                                  in_financial_goals := to_sql (pu_financial_goals b),
                                  in_spending_limit := to_sql (pu_spending_limit b)\<rparr>) [] now db1
                else Inr ([], db1)) of
            Inl e \<Rightarrow> (Inl Internal, db1)
          | Inr (rs', db2) \<Rightarrow> (Inr (), db2)))"

section \<open>Closed forms used in the proofs\<close>

text \<open>
  \<open>firsts\<close> keeps the first occurrence of every element, in order; \<open>group_of\<close>,
  \<open>type_group\<close> and \<open>category_group\<close> are the group of one key, computed from the
  documents directly.
\<close>

definition firsts :: "'a list \<Rightarrow> 'a list" where
  "firsts xs = rev (remdups (rev xs))"

definition group_of ::
  "(transaction \<Rightarrow> 'i) \<Rightarrow> ('i \<Rightarrow> ('i, 'z) group_scheme) \<Rightarrow> transaction list \<Rightarrow> 'i \<Rightarrow> ('i, 'z) group_scheme" where
  "group_of idf init0 ts i =
     (init0 i)\<lparr>g_total := sum_list (map amount (filter (\<lambda>d. idf d = i) ts)),
              g_count := length (filter (\<lambda>d. idf d = i) ts)\<rparr>"

definition type_group :: "transaction list \<Rightarrow> string \<Rightarrow> avg_group" where
  "type_group ts k =
     \<lparr>g_id = k, g_total = sum_list (map amount (filter (\<lambda>d. type d = k) ts)),
      g_count = length (filter (\<lambda>d. type d = k) ts),
      avgAmount = sum_list (map amount (filter (\<lambda>d. type d = k) ts)) /
                  of_nat (length (filter (\<lambda>d. type d = k) ts))\<rparr>"

definition category_group :: "transaction list \<Rightarrow> string \<times> string \<Rightarrow> (string \<times> string) group" where
  "category_group ts i =
     \<lparr>g_id = i, g_total = sum_list (map amount (filter (\<lambda>d. (category d, type d) = i) ts)),
      g_count = length (filter (\<lambda>d. (category d, type d) = i) ts)\<rparr>"

section \<open>Example data\<close>

definition lunch :: body where
  "lunch = \<lparr>b_userId = Some ''u1'', b_amount = Some 50, b_description = Some ''lunch'',
     b_category = Some ''food'', b_type = Some ''expense'', b_date = None, b_tags = None,
     b_isRecurring = None, b_recurringPeriod = None\<rparr>"

definition lunch_stored :: transaction where
  "lunch_stored = \<lparr>t_id = ''t1'', userId = ''u1'', amount = - 50, description = ''lunch'',
     category = ''food'', type = ''expense'', date = 1000, tags = [], isRecurring = False,
     recurringPeriod = None, createdAt = 1000, updatedAt = 1000\<rparr>"

definition rent :: body where
  "rent = \<lparr>b_userId = Some ''u1'', b_amount = Some 900, b_description = Some ''rent'',
     b_category = Some ''bills'', b_type = Some ''expense'', b_date = None, b_tags = None,
     b_isRecurring = Some True, b_recurringPeriod = None\<rparr>"

definition rent_stored :: transaction where
  "rent_stored = \<lparr>t_id = ''t2'', userId = ''u1'', amount = - 900, description = ''rent'',
     category = ''bills'', type = ''expense'', date = 1000, tags = [], isRecurring = True,
     recurringPeriod = None, createdAt = 1000, updatedAt = 1000\<rparr>"


definition salary_stored :: transaction where
  "salary_stored = \<lparr>t_id = ''t3'', userId = ''u1'', amount = 100, description = ''pay'',
     category = ''salary'', type = ''income'', date = 900000000, tags = [], isRecurring = False,
     recurringPeriod = None, createdAt = 900000000, updatedAt = 900000000\<rparr>"

definition taxi_stored :: transaction where
  "taxi_stored = \<lparr>t_id = ''t4'', userId = ''u1'', amount = - 40, description = ''taxi'',
     category = ''transport'', type = ''expense'', date = 950000000, tags = [], isRecurring = False,
     recurringPeriod = None, createdAt = 950000000, updatedAt = 950000000\<rparr>"

definition user1_filter :: query_filter where
  "user1_filter = build_filter ''u1'' None None None None"

definition simple_email :: "string \<Rightarrow> bool" where
  "simple_email s \<longleftrightarrow> CHR ''@'' \<in> set s"

definition hash0 :: "string \<Rightarrow> string" where
  "hash0 pw = ''#'' @ pw"

definition alice_body :: register_body where
  "alice_body = \<lparr>rb_email = Some ''alice@example.com'', rb_password = Some ''secret1'',
                  rb_name = Some ''Alice'', rb_age = Some 30\<rparr>"

definition alice :: user where
  "alice = \<lparr>uid = ''u1'', email = ''alice@example.com'', password = ''#secret1'',
             name = ''Alice'', age = Some 30, created_at = 1000, updated_at = None,
             is_active = True\<rparr>"

definition alice_profile :: profile where
  "alice_profile = \<lparr>pid = ''p1'', user_id = ''u1'', p_monthly_income = Some 0,
                     p_financial_goals = None, p_spending_limit = Some 0, p_updated_at = None\<rparr>"

definition ascii_lower :: "char \<Rightarrow> char" where
  "ascii_lower c =
     (case map_of (zip ''ABCDEFGHIJKLMNOPQRSTUVWXYZ'' ''abcdefghijklmnopqrstuvwxyz'') c of
        Some l \<Rightarrow> l | None \<Rightarrow> c)"

definition ci_equal :: "string \<Rightarrow> string \<Rightarrow> bool" where
  "ci_equal a b \<longleftrightarrow> map ascii_lower a = map ascii_lower b"

definition empty_db :: database where
  "empty_db = \<lparr>users = [], user_profiles = [], email_collation = ci_equal\<rparr>"

definition alice_db :: database where
  "alice_db = \<lparr>users = [alice], user_profiles = [alice_profile], email_collation = ci_equal\<rparr>"

definition alice_alone_db :: database where
  "alice_alone_db = \<lparr>users = [alice], user_profiles = [], email_collation = ci_equal\<rparr>"

definition upper_alice_body :: register_body where
  "upper_alice_body = \<lparr>rb_email = Some ''ALICE@example.com'', rb_password = Some ''secret2'',
                        rb_name = Some ''Alice Two'', rb_age = None\<rparr>"

definition upper_alice :: user where
  "upper_alice = \<lparr>uid = ''u2'', email = ''ALICE@example.com'', password = ''#secret2'',
                   name = ''Alice Two'', age = None, created_at = 2000, updated_at = None,
                   is_active = True\<rparr>"

definition upper_alice_profile :: profile where
  "upper_alice_profile = \<lparr>pid = ''p2'', user_id = ''u2'', p_monthly_income = Some 0,
                           p_financial_goals = None, p_spending_limit = Some 0,
                           p_updated_at = None\<rparr>"

definition long_name_body :: register_body where
  "long_name_body = \<lparr>rb_email = Some ''bob@example.com'', rb_password = Some ''secret3'',
                      rb_name = Some (replicate 256 (CHR ''b'')), rb_age = None\<rparr>"

definition rename_bob :: profile_update where
  "rename_bob = \<lparr>pu_name = Value ''Bob'', pu_age = Undefined, pu_monthly_income = Value 2500,
                  pu_financial_goals = Undefined, pu_spending_limit = Undefined\<rparr>"

definition no_update :: profile_update where
  "no_update = \<lparr>pu_name = Undefined, pu_age = Undefined, pu_monthly_income = Undefined,
                 pu_financial_goals = Undefined, pu_spending_limit = Undefined\<rparr>"

section \<open>Properties of the amount normaliser\<close>

lemma map_set_mem: "t \<in> set (map_set store t)"
  by (induction store) auto

lemma validate_amount_nonzero:
  "transactionSchema_validate b = Inr v \<Longrightarrow> v_amount v \<noteq> 0 \<and> b_amount b = Some (v_amount v)"
  unfolding transactionSchema_validate_def bind_err_def
  by (cases "b_amount b") (auto split: sum.splits if_splits)

lemma validate_type:
  "transactionSchema_validate b = Inr v \<Longrightarrow> b_type b = Some (v_type v) \<and> v_type v \<in> set types"
  unfolding transactionSchema_validate_def bind_err_def
  by (cases "b_type b") (auto split: sum.splits if_splits)

lemma adjust_amount_sign:
  "v_amount v \<noteq> 0 \<Longrightarrow>
     v_type (adjust_amount v) = v_type v \<and>
     (v_type v = ''income'' \<longrightarrow> v_amount (adjust_amount v) = \<bar>v_amount v\<bar>) \<and>
     (v_type v = ''expense'' \<longrightarrow> v_amount (adjust_amount v) = - \<bar>v_amount v\<bar>)"
  by (auto simp: adjust_amount_def)

lemma validate_lunch: "transactionSchema_validate lunch = Inr \<lparr>v_userId = ''u1'', v_amount = 50, v_description = ''lunch'', v_category = ''food'', v_type = ''expense'',
            v_date = None, v_tags = None, v_isRecurring = None,
            v_recurringPeriod = None\<rparr>"
  by (simp add: transactionSchema_validate_def lunch_def bind_err_def joi_description_def categories_def types_def)

lemma create_transaction_Inr:
  assumes "create_transaction m newid now b store = (Inr t, store')"
  shows "\<exists>v. transactionSchema_validate b = Inr v \<and>
             amount t = v_amount (adjust_amount v) \<and> type t = v_type (adjust_amount v) \<and>
             t \<in> set store'"
proof (cases "transactionSchema_validate b")
  case (Inl e)
  with assms show ?thesis by (simp add: create_transaction_def)
next
  case (Inr v)
  with assms have s: "save m (MockTransaction newid now (adjust_amount v)) store = (Inr t, store')"
    by (simp add: create_transaction_def)
  then have eq: "t = MockTransaction newid now (adjust_amount v)" and mem: "t \<in> set store'"
    by (cases m; auto simp: save_def map_set_mem split: if_splits)+
  from eq have "amount t = v_amount (adjust_amount v)" "type t = v_type (adjust_amount v)"
    by (simp_all add: MockTransaction_def)
  with mem have "amount t = v_amount (adjust_amount v)" "type t = v_type (adjust_amount v)" "t \<in> set store'"
    by simp_all
  with Inr show ?thesis by blast
qed

lemma update_transaction_Inr:
  assumes "update_transaction m i now b store = (Inr t, store')"
  shows "\<exists>v. transactionSchema_validate b = Inr v \<and>
             amount t = v_amount (adjust_amount v) \<and> type t = v_type (adjust_amount v) \<and>
             t \<in> set store'"
proof (cases "transactionSchema_validate b")
  case (Inl e)
  with assms show ?thesis by (simp add: update_transaction_def)
next
  case (Inr v)
  with assms obtain t0 where "t = (assign t0 (adjust_amount v))\<lparr>updatedAt := now\<rparr>"
      and "store' = map_set store t"
    by (auto simp: update_transaction_def findByIdAndUpdate_def Let_def
             split: if_splits option.splits sum.splits prod.splits)
  with Inr show ?thesis by (simp add: assign_def map_set_mem)
qed

text \<open>
  C2. Whenever create or update accepts a request, in live or in fallback mode, the
  returned transaction is in the store and its amount agrees in sign with its type:
  positive for income, negative for expense. The stored amount is the absolute value of
  the supplied one for income and its negation for expense.
\<close>

theorem stored_amount_sign:
  assumes "create_transaction m newid now b store = (Inr t, store') \<or>
           update_transaction m i now b store = (Inr t, store')"
  shows "t \<in> set store' \<and>
         (type t = ''income'' \<longrightarrow> amount t > 0) \<and>
         (type t = ''expense'' \<longrightarrow> amount t < 0) \<and>
         (type t = ''income'' \<or> type t = ''expense'') \<and>
         (\<exists>a. b_amount b = Some a \<and> a \<noteq> 0 \<and> b_type b = Some (type t) \<and>
              amount t = (if type t = ''expense'' then - \<bar>a\<bar> else \<bar>a\<bar>))"
proof -
  from assms obtain v where v: "transactionSchema_validate b = Inr v"
      and a: "amount t = v_amount (adjust_amount v)"
      and ty: "type t = v_type (adjust_amount v)" and mem: "t \<in> set store'"
    using create_transaction_Inr update_transaction_Inr by blast
  from validate_amount_nonzero [OF v] have nz: "v_amount v \<noteq> 0" and ba: "b_amount b = Some (v_amount v)"
    by simp_all
  from validate_type [OF v] have bt: "b_type b = Some (v_type v)"
      and tys: "v_type v = ''income'' \<or> v_type v = ''expense''"
    by (simp_all add: types_def)
  from adjust_amount_sign [OF nz] have ty': "type t = v_type v"
      and inc: "v_type v = ''income'' \<Longrightarrow> amount t = \<bar>v_amount v\<bar>"
      and exp: "v_type v = ''expense'' \<Longrightarrow> amount t = - \<bar>v_amount v\<bar>"
    using a ty by simp_all
  from tys show ?thesis
  proof
    assume i: "v_type v = ''income''"
    with inc nz ty' ba bt mem show ?thesis by simp
  next
    assume e: "v_type v = ''expense''"
    with exp nz ty' ba bt mem show ?thesis by simp
  qed
qed

theorem stored_amount_sign_witness:
  "create_transaction Fallback ''t1'' 1000 lunch [] = (Inr lunch_stored, [lunch_stored]) \<and>
   lunch_stored \<in> set [lunch_stored] \<and> amount lunch_stored = - 50 \<and> amount lunch_stored < 0 \<and>
   type lunch_stored = ''expense'' \<and> b_amount lunch = Some 50"
proof -
  have h: "create_transaction Fallback ''t1'' 1000 lunch [] = (Inr lunch_stored, [lunch_stored])"
    by (simp add: create_transaction_def validate_lunch adjust_amount_def save_def
          MockTransaction_def lunch_stored_def)
  from stored_amount_sign [of Fallback "''t1''" 1000 lunch "[]" lunch_stored "[lunch_stored]", OF disjI1 [OF h]] h
  show ?thesis by (simp add: lunch_stored_def lunch_def)
qed

lemma validate_rent:
  "transactionSchema_validate rent =
     Inr \<lparr>v_userId = ''u1'', v_amount = 900, v_description = ''rent'', v_category = ''bills'',
          v_type = ''expense'', v_date = None, v_tags = None, v_isRecurring = Some True,
          v_recurringPeriod = None\<rparr>"
  by (simp add: transactionSchema_validate_def rent_def bind_err_def joi_description_def
        categories_def types_def)

text \<open>
  C10. The sign adjustment is idempotent: applying it twice gives the same value (amount,
  type and every other field) as applying it once, so adjusting an already adjusted
  value again, as an update does, leaves the amount as it is.
\<close>

theorem adjust_amount_idempotent:
  "adjust_amount (adjust_amount v) = adjust_amount v \<and>
   v_amount (adjust_amount (adjust_amount v)) = v_amount (adjust_amount v) \<and>
   v_type (adjust_amount (adjust_amount v)) = v_type v"
  by (auto simp: adjust_amount_def)

text \<open>
  C9. The profile completion is 30, plus 35 for a positive monthly income, plus 35 for a
  positive spending limit, cut off at 100; it lies between 0 and 100, and it is 65 for a
  monthly income of 0 and a spending limit of 500.
\<close>

theorem calculateProfileCompletion_value:
  "calculateProfileCompletion s =
     min 100 (30 + (if js_positive (monthly_income s) then 35 else 0)
                 + (if js_positive (spending_limit s) then 35 else 0)) \<and>
   0 \<le> calculateProfileCompletion s \<and> calculateProfileCompletion s \<le> 100 \<and>
   calculateProfileCompletion \<lparr>monthly_income = Some 0, spending_limit = Some 500\<rparr> = 65"
  by (simp add: calculateProfileCompletion_def js_positive_def Let_def)

section \<open>Recurring transactions\<close>

text \<open>
  C8. What the code does on a request with \<^verbatim>\<open>isRecurring = true\<close> and no
  \<^verbatim>\<open>recurringPeriod\<close>: the Joi schema accepts it, the fallback store creates and updates
  the transaction with no period, and the live store refuses the creation inside
  \<^verbatim>\<open>save()\<close>, which the route reports as an internal error.
\<close>

theorem recurring_without_period_accepted:
  "create_transaction Fallback ''t2'' 1000 rent [] = (Inr rent_stored, [rent_stored]) \<and>
   isRecurring rent_stored \<and> recurringPeriod rent_stored = None \<and>
   update_transaction Fallback ''t2'' 2000 rent [rent_stored] =
     (Inr (rent_stored\<lparr>updatedAt := 2000\<rparr>), [rent_stored\<lparr>updatedAt := 2000\<rparr>]) \<and>
   create_transaction Live ''t2'' 1000 rent [] = (Inl Internal, [])"
  by (simp add: create_transaction_def update_transaction_def validate_rent adjust_amount_def
        save_def MockTransaction_def rent_stored_def findByIdAndUpdate_def findById_def
        assign_def schema_validate_def Let_def)

section \<open>Summaries in both modes\<close>

lemma firsts_snoc: "firsts (xs @ [x]) = (if x \<in> set xs then firsts xs else firsts xs @ [x])"
  by (simp add: firsts_def)

lemma firsts_Nil: "firsts [] = []"
  by (simp add: firsts_def)

lemma distinct_firsts: "distinct (firsts xs)"
  by (simp add: firsts_def)

lemma set_firsts: "set (firsts xs) = set xs"
  by (simp add: firsts_def)

lemma mset_firsts: "mset (firsts xs) = mset (remdups xs)"
  by (metis distinct_firsts distinct_remdups set_eq_iff_mset_eq_distinct set_firsts set_remdups)

lemma bump_group_of:
  "idf t = i \<Longrightarrow> bump (group_of idf init0 ts i) t = group_of idf init0 (ts @ [t]) i"
  by (simp add: bump_def group_of_def)

lemma group_of_other:
  "idf t \<noteq> i \<Longrightarrow> group_of idf init0 (ts @ [t]) i = group_of idf init0 ts i"
  by (simp add: group_of_def)

lemma reduce_step_map:
  assumes "distinct ks"
    and "inj_on kf (insert (idf t) (set ks))"
    and "idf t \<notin> set ks \<Longrightarrow> filter (\<lambda>d. idf d = idf t) ts = []"
    and "\<forall>i. g_total (init0 i) = 0 \<and> g_count (init0 i) = 0"
  shows "reduce_step (\<lambda>t. kf (idf t)) (\<lambda>t. init0 (idf t))
           (map (\<lambda>i. (kf i, group_of idf init0 ts i)) ks) t =
         map (\<lambda>i. (kf i, group_of idf init0 (ts @ [t]) i))
           (if idf t \<in> set ks then ks else ks @ [idf t])"
  using assms(1,2,3)
proof (induction ks)
  case Nil
  then have "filter (\<lambda>d. idf d = idf t) ts = []" by simp
  then have "bump (init0 (idf t)) t = group_of idf init0 (ts @ [t]) (idf t)"
    using assms(4) by (simp add: bump_def group_of_def)
  then show ?case by simp
next
  case (Cons a ks)
  show ?case
  proof (cases "a = idf t")
    case True
    with Cons.prems(1) have "\<forall>i\<in>set ks. idf t \<noteq> i" by auto
    then have "map (\<lambda>i. (kf i, group_of idf init0 ts i)) ks =
               map (\<lambda>i. (kf i, group_of idf init0 (ts @ [t]) i)) ks"
      by (simp add: group_of_other)
    with True show ?thesis by (simp add: bump_group_of)
  next
    case False
    with Cons.prems(2) have ne: "kf a \<noteq> kf (idf t)"
      by (auto simp: inj_on_def)
    have "inj_on kf (insert (idf t) (set ks))"
      using Cons.prems(2) by (rule inj_on_subset) auto
    moreover have "idf t \<notin> set ks \<Longrightarrow> filter (\<lambda>d. idf d = idf t) ts = []"
      using Cons.prems(3) False by auto
    ultimately have IH: "reduce_step (\<lambda>t. kf (idf t)) (\<lambda>t. init0 (idf t))
           (map (\<lambda>i. (kf i, group_of idf init0 ts i)) ks) t =
         map (\<lambda>i. (kf i, group_of idf init0 (ts @ [t]) i))
           (if idf t \<in> set ks then ks else ks @ [idf t])"
      using Cons.IH Cons.prems(1) by simp
    from False have "group_of idf init0 (ts @ [t]) a = group_of idf init0 ts a"
      by (simp add: group_of_other)
    with False ne IH show ?thesis by simp
  qed
qed

lemma foldl_reduce_step:
  assumes "inj_on kf (idf ` set ts)"
    and "\<forall>i. g_total (init0 i) = 0 \<and> g_count (init0 i) = 0"
  shows "foldl (reduce_step (\<lambda>t. kf (idf t)) (\<lambda>t. init0 (idf t))) [] ts =
         map (\<lambda>i. (kf i, group_of idf init0 ts i)) (firsts (map idf ts))"
  using assms(1)
proof (induction ts rule: rev_induct)
  case Nil
  show ?case by (simp add: firsts_Nil)
next
  case (snoc t ts)
  from snoc.prems have inj: "inj_on kf (idf ` set ts)"
    by (rule inj_on_subset) auto
  have inj': "inj_on kf (insert (idf t) (set (firsts (map idf ts))))"
    using snoc.prems by (simp add: set_firsts)
  have empty: "idf t \<notin> set (firsts (map idf ts)) \<Longrightarrow> filter (\<lambda>d. idf d = idf t) ts = []"
  proof -
    assume "idf t \<notin> set (firsts (map idf ts))"
    then have "idf t \<notin> idf ` set ts" by (simp add: set_firsts)
    then have "\<forall>d\<in>set ts. idf d \<noteq> idf t" by (metis imageI)
    then show ?thesis by (simp add: filter_empty_conv)
  qed
  show ?case
    using reduce_step_map [OF distinct_firsts inj' empty assms(2)] snoc.IH [OF inj]
    by (simp add: firsts_snoc set_firsts)
qed

lemma mock_financial_summary:
  "getMockFinancialSummary owner s e store =
     map (type_group (filter (in_window owner s e) store))
       (firsts (map type (filter (in_window owner s e) store)))"
proof -
  let ?W = "filter (in_window owner s e) store"
  let ?init0 = "\<lambda>i. \<lparr>g_id = i, g_total = 0, g_count = 0, avgAmount = 0\<rparr>"
  have "foldl (reduce_step (\<lambda>t. (\<lambda>x. x) (type t)) (\<lambda>t. ?init0 (type t))) [] ?W =
        map (\<lambda>i. ((\<lambda>x. x) i, group_of type ?init0 ?W i)) (firsts (map type ?W))"
    by (rule foldl_reduce_step) simp_all
  then show ?thesis
    by (simp add: getMockFinancialSummary_def Let_def group_of_def type_group_def comp_def)
qed

lemma live_financial_summary:
  "getFinancialSummary Live owner s e store =
     map (type_group (filter (in_window owner s e) store))
       (remdups (map type (filter (in_window owner s e) store)))"
  by (simp add: getFinancialSummary_def group_stage_def with_avg_def type_group_def Let_def comp_def)

lemma find_total_groups:
  "find_total k (map (type_group ts) ks) =
     (if k \<in> set ks then sum_list (map amount (filter (\<lambda>d. type d = k) ts)) else 0)"
  by (induction ks) (auto simp: find_total_def type_group_def)

lemma filter_type_empty:
  "k \<notin> type ` set ts \<Longrightarrow> filter (\<lambda>d. type d = k) ts = []"
  by (induction ts) auto

lemma find_total_summary:
  assumes "set ks = type ` set ts"
  shows "find_total k (map (type_group ts) ks) = sum_list (map amount (filter (\<lambda>d. type d = k) ts))"
  using assms filter_type_empty [of k ts] by (simp add: find_total_groups)

lemma foldl_count: "foldl (\<lambda>acc s. acc + g_count s) n gs = n + sum_list (map g_count gs)"
  by (induction gs arbitrary: n) simp_all

lemma length_filter_key_split:
  "a \<notin> set ks \<Longrightarrow>
     length (filter (\<lambda>d. f d = a) ts) + length (filter (\<lambda>d. f d \<in> set ks) ts) =
     length (filter (\<lambda>d. f d \<in> set (a # ks)) ts)"
  by (induction ts) auto

lemma sum_counts_distinct:
  "distinct ks \<Longrightarrow>
     sum_list (map (\<lambda>k. length (filter (\<lambda>d. f d = k) ts)) ks) =
     length (filter (\<lambda>d. f d \<in> set ks) ts)"
proof (induction ks)
  case Nil
  show ?case by simp
next
  case (Cons a ks)
  then have "sum_list (map (\<lambda>k. length (filter (\<lambda>d. f d = k) ts)) (a # ks)) =
        length (filter (\<lambda>d. f d = a) ts) + length (filter (\<lambda>d. f d \<in> set ks) ts)"
    by simp
  also have "\<dots> = length (filter (\<lambda>d. f d \<in> set (a # ks)) ts)"
    using Cons.prems by (intro length_filter_key_split) simp
  finally show ?case .
qed

lemma total_count_summary:
  assumes "distinct ks" and "set ks = type ` set ts"
  shows "foldl (\<lambda>acc s. acc + g_count s) 0 (map (type_group ts) ks) = length ts"
proof -
  have "foldl (\<lambda>acc s. acc + g_count s) 0 (map (type_group ts) ks) =
        sum_list (map (\<lambda>k. length (filter (\<lambda>d. type d = k) ts)) ks)"
    by (simp add: foldl_count comp_def type_group_def)
  also have "\<dots> = length (filter (\<lambda>d. type d \<in> set ks) ts)"
    using assms(1) by (rule sum_counts_distinct)
  also have "\<dots> = length ts"
    using assms(2) by simp
  finally show ?thesis .
qed

lemma financial_summary_keys:
  "\<exists>ks. distinct ks \<and> set ks = type ` set (filter (in_window owner s e) store) \<and>
        getFinancialSummary m owner s e store = map (type_group (filter (in_window owner s e) store)) ks"
proof (cases m)
  case Live
  show ?thesis
    by (rule exI [of _ "remdups (map type (filter (in_window owner s e) store))"])
       (simp add: Live live_financial_summary)
next
  case Fallback
  show ?thesis
    by (rule exI [of _ "firsts (map type (filter (in_window owner s e) store))"])
       (simp add: Fallback getFinancialSummary_def mock_financial_summary distinct_firsts set_firsts)
qed


lemma get_summary_eq:
  "get_summary m cal now owner period store =
     (let W = filter (in_window owner (period_start cal period now) now) store;
          inc = sum_list (map amount (filter (\<lambda>t. type t = ''income'') W));
          exp = \<bar>sum_list (map amount (filter (\<lambda>t. type t = ''expense'') W))\<bar>
      in Inr \<lparr>r_period = period,
              r_summary = \<lparr>income = inc, expenses = exp, balance = inc - exp,
                           total_transactions = length W\<rparr>,
              r_categories = getCategorySummary m owner (period_start cal period now) now store\<rparr>)"
proof -
  let ?s = "period_start cal period now"
  let ?W = "filter (in_window owner ?s now) store"
  obtain ks where ks: "distinct ks" "set ks = type ` set ?W"
      and fs: "getFinancialSummary m owner ?s now store = map (type_group ?W) ks"
    using financial_summary_keys [of owner ?s now store m] by blast
  have inc: "find_total ''income'' (map (type_group ?W) ks) =
             sum_list (map amount (filter (\<lambda>t. type t = ''income'') ?W))"
    using ks(2) by (rule find_total_summary)
  have exp: "find_total ''expense'' (map (type_group ?W) ks) =
             sum_list (map amount (filter (\<lambda>t. type t = ''expense'') ?W))"
    using ks(2) by (rule find_total_summary)
  have cnt: "foldl (\<lambda>acc s. acc + g_count s) 0 (map (type_group ?W) ks) = length ?W"
    using ks by (rule total_count_summary)
  show ?thesis
    unfolding get_summary_def Let_def fs inc exp cnt by simp
qed



lemma category_key_inj:
  assumes "CHR ''-'' \<notin> set c1" and "CHR ''-'' \<notin> set c2"
    and "c1 @ ''-'' @ t1 = c2 @ ''-'' @ t2"
  shows "c1 = c2 \<and> t1 = t2"
proof -
  have "takeWhile (\<lambda>x. x \<noteq> CHR ''-'') (c1 @ ''-'' @ t1) = c1"
    using assms(1) by (subst takeWhile_append2) auto
  moreover have "takeWhile (\<lambda>x. x \<noteq> CHR ''-'') (c2 @ ''-'' @ t2) = c2"
    using assms(2) by (subst takeWhile_append2) auto
  ultimately have "c1 = c2" using assms(3) by simp
  with assms(3) show ?thesis by simp
qed

lemma categories_no_dash: "c \<in> set categories \<Longrightarrow> CHR ''-'' \<notin> set c"
  by (auto simp: categories_def)

lemma category_key_inj_on:
  assumes "\<forall>t\<in>set ts. category t \<in> set categories"
  shows "inj_on (\<lambda>(c, ty). c @ ''-'' @ ty) ((\<lambda>d. (category d, type d)) ` set ts)"
proof (rule inj_onI)
  fix x y
  assume x: "x \<in> (\<lambda>d. (category d, type d)) ` set ts"
    and y: "y \<in> (\<lambda>d. (category d, type d)) ` set ts"
    and eq: "(case x of (c, ty) \<Rightarrow> c @ ''-'' @ ty) = (case y of (c, ty) \<Rightarrow> c @ ''-'' @ ty)"
  from x assms have "fst x \<in> set categories" by auto
  then have "CHR ''-'' \<notin> set (fst x)" by (rule categories_no_dash)
  moreover from y assms have "fst y \<in> set categories" by auto
  then have "CHR ''-'' \<notin> set (fst y)" by (rule categories_no_dash)
  moreover from eq have "fst x @ ''-'' @ snd x = fst y @ ''-'' @ snd y"
    by (simp add: case_prod_beta)
  ultimately have "fst x = fst y \<and> snd x = snd y" by (rule category_key_inj)
  then show "x = y" by (simp add: prod_eq_iff)
qed

lemma category_group_fun:
  "category_group ts =
     (\<lambda>i. \<lparr>g_id = i, g_total = sum_list (map amount (filter (\<lambda>d. (category d, type d) = i) ts)),
           g_count = length (filter (\<lambda>d. (category d, type d) = i) ts)\<rparr>)"
  by (rule ext) (simp add: category_group_def)

lemma mock_category_summary:
  assumes "\<forall>t\<in>set store. category t \<in> set categories"
  shows "getMockCategorySummary owner s e store =
     sort_key (\<lambda>g. - g_total g)
       (map (category_group (filter (in_window owner s e) store))
          (firsts (map (\<lambda>d. (category d, type d)) (filter (in_window owner s e) store))))"
proof -
  let ?W = "filter (in_window owner s e) store"
  let ?idf = "\<lambda>d. (category d, type d)"
  let ?kf = "\<lambda>(c, ty). c @ ''-'' @ ty"
  let ?init0 = "\<lambda>i. \<lparr>g_id = i, g_total = 0, g_count = 0\<rparr>"
  from assms have "\<forall>t\<in>set ?W. category t \<in> set categories" by simp
  then have "inj_on ?kf (?idf ` set ?W)" by (rule category_key_inj_on)
  then have "foldl (reduce_step (\<lambda>t. ?kf (?idf t)) (\<lambda>t. ?init0 (?idf t))) [] ?W =
        map (\<lambda>i. (?kf i, group_of ?idf ?init0 ?W i)) (firsts (map ?idf ?W))"
    by (rule foldl_reduce_step) simp
  moreover have "category_key = (\<lambda>t. ?kf (?idf t))"
    by (rule ext) (simp add: category_key_def)
  ultimately show ?thesis
    by (simp add: getMockCategorySummary_def Let_def group_of_def category_group_fun comp_def)
qed

lemma live_category_summary:
  "getCategorySummary Live owner s e store =
     sort_key (\<lambda>g. - g_total g)
       (map (category_group (filter (in_window owner s e) store))
          (remdups (map (\<lambda>d. (category d, type d)) (filter (in_window owner s e) store))))"
  by (simp add: getCategorySummary_def group_stage_def category_group_fun Let_def comp_def)

lemma sort_key_descending:
  "sorted_wrt (\<lambda>a b. g_total a \<ge> g_total b) (sort_key (\<lambda>g. - g_total g) gs)"
proof -
  have "sorted (map (\<lambda>g. - g_total g) (sort_key (\<lambda>g. - g_total g) gs))"
    by (rule sorted_sort_key)
  then show ?thesis by (simp add: sorted_map)
qed

lemma category_summary_descending:
  "sorted_wrt (\<lambda>a b. g_total a \<ge> g_total b) (getCategorySummary m owner s e store)"
  by (cases m) (simp_all add: getCategorySummary_def getMockCategorySummary_def Let_def
        sort_key_descending)

lemma category_summary_mset:
  assumes "\<forall>t\<in>set store. category t \<in> set categories"
  shows "mset (getCategorySummary Live owner s e store) = mset (getCategorySummary Fallback owner s e store)"
proof -
  have "getCategorySummary Fallback owner s e store = getMockCategorySummary owner s e store"
    by (simp add: getCategorySummary_def)
  then show ?thesis
    unfolding live_category_summary mock_category_summary [OF assms]
    by (simp add: mset_firsts)
qed

lemma financial_summary_mset:
  "mset (getFinancialSummary Live owner s e store) = mset (getFinancialSummary Fallback owner s e store)"
proof -
  have "getFinancialSummary Fallback owner s e store = getMockFinancialSummary owner s e store"
    by (simp add: getFinancialSummary_def)
  then show ?thesis
    unfolding live_financial_summary mock_financial_summary
    by (simp add: mset_firsts)
qed

lemma sum_list_Ints: "\<forall>x\<in>set ys. x \<in> \<int> \<Longrightarrow> sum_list ys \<in> (\<int> :: rat set)"
  by (induction ys) auto

lemma abs_sum_list_le: "\<bar>sum_list ys\<bar> \<le> sum_list (map abs (ys :: rat list))"
  by (induction ys) auto

lemma sum_abs_submset:
  fixes xs ys :: "rat list"
  assumes "mset ys \<subseteq># mset xs"
  shows "sum_list (map abs ys) \<le> sum_list (map abs xs)"
proof -
  from assms obtain R where R: "mset xs = mset ys + R"
    by (metis subset_mset.le_iff_add)
  have "sum_mset (image_mset abs (mset xs)) = sum_mset (image_mset abs (mset ys)) + sum_mset (image_mset abs R)"
    by (simp add: R)
  moreover have "0 \<le> sum_mset (image_mset abs R)"
    by (induction R) auto
  ultimately have "sum_mset (image_mset abs (mset ys)) \<le> sum_mset (image_mset abs (mset xs))"
    by simp
  then show ?thesis
    by (simp add: sum_mset_sum_list flip: mset_map)
qed

lemma sub_sums_exact:
  fixes xs ys :: "rat list"
  assumes "\<forall>x\<in>set xs. x \<in> \<int>" and "sum_list (map abs xs) \<le> B" and "mset ys \<subseteq># mset xs"
  shows "sum_list ys \<in> \<int> \<and> \<bar>sum_list ys\<bar> \<le> B"
proof -
  from assms(3) have "set ys \<subseteq> set xs"
    by (metis set_mset_mono set_mset_mset)
  with assms(1) have "sum_list ys \<in> \<int>"
    by (intro sum_list_Ints) blast
  moreover have "\<bar>sum_list ys\<bar> \<le> B"
    using abs_sum_list_le [of ys] sum_abs_submset [OF assms(3)] assms(2) by linarith
  ultimately show ?thesis by simp
qed

lemma round_half_even_int: "round_half_even (of_int k) = k"
  by (simp add: round_half_even_def)

lemma double_round_exact:
  assumes "x / power_int 2 (floor_log2 x - 52) = of_int k"
  shows "double_round x = x"
proof (cases "x = 0")
  case True then show ?thesis by (simp add: double_round_def)
next
  case False
  have "of_int (round_half_even (x / power_int 2 (floor_log2 x - 52))) * power_int 2 (floor_log2 x - 52) =
      x / power_int 2 (floor_log2 x - 52) * power_int 2 (floor_log2 x - 52)"
    unfolding assms round_half_even_int ..
  also have "\<dots> = x" by simp
  finally show ?thesis using False by (simp add: double_round_def Let_def)
qed

lemma floor_log2_int: "k \<noteq> 0 \<Longrightarrow> floor_log2 (of_int k) = bitlen \<bar>k\<bar> - 1"
proof -
  assume "k \<noteq> 0"
  then have "1 \<le> \<bar>k\<bar>" by simp
  then have "(1::rat) \<le> \<bar>of_int k\<bar>"
    by (simp flip: of_int_abs)
  then show ?thesis
    by (simp add: floor_log2_def flip: of_int_abs)
qed

lemma double_round_of_int:
  assumes "\<bar>k\<bar> \<le> 2 ^ 53"
  shows "double_round (of_int k) = of_int k"
proof (cases "k = 0")
  case True then show ?thesis by (simp add: double_round_def)
next
  case False
  note fl = floor_log2_int [OF False]
  show ?thesis
  proof (cases "\<bar>k\<bar> < 2 ^ 53")
    case True
    then have "bitlen \<bar>k\<bar> \<le> 53"
      by (simp add: bitlen_le_iff_power)
    then have "0 \<le> 53 - bitlen \<bar>k\<bar>" by simp
    then obtain n :: nat where "53 - bitlen \<bar>k\<bar> = int n"
      using nonneg_int_cases by blast
    then have n: "floor_log2 (of_int k) - 52 = - int n"
      unfolding fl by simp
    have "(of_int k :: rat) / power_int 2 (floor_log2 (of_int k) - 52) = of_int (k * 2 ^ n)"
      unfolding n by (simp add: power_int_minus divide_inverse)
    then show ?thesis by (rule double_round_exact)
  next
    case False
    with assms have e: "\<bar>k\<bar> = 2 ^ 53" by simp
    have "bitlen (1 * 2 ^ 53) = bitlen 1 + 53"
      using bitlen_pow2 [of 1 53] by simp
    moreover have "bitlen 1 = 1"
      by (simp add: bitlen_alt_def)
    ultimately have "bitlen \<bar>k\<bar> = 54"
      unfolding e by simp
    then have n: "floor_log2 (of_int k) - 52 = 1" unfolding fl by simp
    from e have "k = 2 ^ 53 \<or> k = - (2 ^ 53)" by linarith
    then have "(of_int k :: rat) / power_int 2 (floor_log2 (of_int k) - 52) = of_int (k div 2)"
      unfolding n by auto
    then show ?thesis by (rule double_round_exact)
  qed
qed

lemma double_round_int:
  assumes "x \<in> \<int>" and "\<bar>x\<bar> \<le> 2 ^ 53"
  shows "double_round x = x"
proof -
  from assms(1) obtain k :: int where k: "x = of_int k"
    by (auto elim: Ints_cases)
  from assms(2) have "(of_int \<bar>k\<bar> :: rat) \<le> of_int (2 ^ 53)"
    unfolding k by simp
  then have "\<bar>k\<bar> \<le> 2 ^ 53"
    unfolding of_int_le_iff .
  then show ?thesis
    unfolding k by (rule double_round_of_int)
qed

lemma double_sum_snoc: "double_sum (xs @ [x]) = double_round (double_sum xs + x)"
  by (simp add: double_sum_def)

lemma double_sum_ints:
  "\<forall>x\<in>set ys. x \<in> \<int> \<Longrightarrow> sum_list (map abs ys) \<le> 2 ^ 53 \<Longrightarrow> double_sum ys = sum_list ys"
proof (induction ys rule: rev_induct)
  case Nil
  then show ?case by (simp add: double_sum_def)
next
  case (snoc y ys)
  have "0 \<le> \<bar>y\<bar>" by simp
  with snoc.prems(2) have "sum_list (map abs ys) \<le> 2 ^ 53"
    by simp
  with snoc have ih: "double_sum ys = sum_list ys"
    by simp
  from snoc.prems(1) have "sum_list (ys @ [y]) \<in> \<int>"
    by (intro sum_list_Ints) blast
  moreover have "\<bar>sum_list (ys @ [y])\<bar> \<le> 2 ^ 53"
    using abs_sum_list_le [of "ys @ [y]"] snoc.prems(2) by linarith
  ultimately have "double_round (sum_list (ys @ [y])) = sum_list (ys @ [y])"
    by (rule double_round_int)
  then show ?case
    unfolding double_sum_snoc ih by simp
qed

lemma double_sums_exact:
  fixes xs ys :: "rat list"
  assumes "\<forall>x\<in>set xs. x \<in> \<int>" and "sum_list (map abs xs) \<le> 2 ^ 53" and "mset ys \<subseteq># mset xs"
  shows "double_sum ys = sum_list ys \<and> double_round (sum_list ys) = sum_list ys"
proof -
  from assms(3) have "set ys \<subseteq> set xs"
    by (metis set_mset_mono set_mset_mset)
  with assms(1) have i: "\<forall>x\<in>set ys. x \<in> \<int>"
    by blast
  have b: "sum_list (map abs ys) \<le> 2 ^ 53"
    using sum_abs_submset [OF assms(3)] assms(2) by linarith
  from sub_sums_exact [OF assms] have "double_round (sum_list ys) = sum_list ys"
    by (intro double_round_int) simp_all
  with double_sum_ints [OF i b] show ?thesis by simp
qed

text \<open>
  Without such a bound the order matters: the doubles of 0.1, 0.2 and 0.3 added from the
  left give another total than added from the right.
\<close>

lemma double_sum_order:
  "double_sum (map double_round [1 / 10, 2 / 10, 3 / 10]) = 5404319552844596 / 9007199254740992 \<and>
   double_sum (map double_round [3 / 10, 2 / 10, 1 / 10]) = 5404319552844595 / 9007199254740992"
  by code_simp

text \<open>
  C1, as amended. Take a store whose categories and types are of the schema's
  enumerations and whose amounts are integers with absolute values summing to at most
  \<open>2 ^ 53\<close>. Then sums of its amounts are computed without rounding: for every selection
  of its amounts, in every order, the sum accumulated in double precision is the exact
  sum, which is a double itself, so the totals of this development are the totals of
  the code in both modes. On such a store both modes return the same groups by type
  (total, count, and the average as the quotient of that total and count) and the same
  groups by category and type, as multisets, the latter sorted by descending total in
  both; the summary route returns the same numbers in both modes. Outside such stores
  the totals of the two modes are sums of the same amounts, added in orders that need
  not agree, so they can differ by rounding. The top-categories route is computed in
  live mode only: in fallback mode its aggregation returns the empty list.
\<close>

theorem summary_modes_agree:
  assumes "\<forall>t\<in>set store. category t \<in> set categories \<and> type t \<in> set types \<and> amount t \<in> \<int>"
    and "sum_list (map (\<lambda>t. \<bar>amount t\<bar>) store) \<le> 2 ^ 53"
  shows "mset (getFinancialSummary Live owner s e store) =
           mset (getFinancialSummary Fallback owner s e store) \<and>
         mset (getCategorySummary Live owner s e store) =
           mset (getCategorySummary Fallback owner s e store) \<and>
         sorted_wrt (\<lambda>a b. g_total a \<ge> g_total b) (getCategorySummary Live owner s e store) \<and>
         sorted_wrt (\<lambda>a b. g_total a \<ge> g_total b) (getCategorySummary Fallback owner s e store) \<and>
         (\<exists>rl rf. get_summary Live cal now owner period store = Inr rl \<and>
                  get_summary Fallback cal now owner period store = Inr rf \<and>
                  r_period rl = r_period rf \<and> r_summary rl = r_summary rf \<and>
                  mset (r_categories rl) = mset (r_categories rf)) \<and>
         get_categories Fallback owner s e store = Inr [] \<and>
         (\<forall>ys. mset ys \<subseteq># mset (map amount store) \<longrightarrow>
               double_sum ys = sum_list ys \<and> double_round (sum_list ys) = sum_list ys)"
proof -
  from assms(1) have "\<forall>t\<in>set store. category t \<in> set categories"
    by blast
  from category_summary_mset [OF this] financial_summary_mset category_summary_descending
  have modes: "mset (getFinancialSummary Live owner s e store) =
           mset (getFinancialSummary Fallback owner s e store) \<and>
         mset (getCategorySummary Live owner s e store) =
           mset (getCategorySummary Fallback owner s e store) \<and>
         sorted_wrt (\<lambda>a b. g_total a \<ge> g_total b) (getCategorySummary Live owner s e store) \<and>
         sorted_wrt (\<lambda>a b. g_total a \<ge> g_total b) (getCategorySummary Fallback owner s e store) \<and>
         (\<exists>rl rf. get_summary Live cal now owner period store = Inr rl \<and>
                  get_summary Fallback cal now owner period store = Inr rf \<and>
                  r_period rl = r_period rf \<and> r_summary rl = r_summary rf \<and>
                  mset (r_categories rl) = mset (r_categories rf)) \<and>
         get_categories Fallback owner s e store = Inr []"
    by (simp add: get_summary_eq Let_def get_categories_def)
  from assms(1) have ints: "\<forall>x\<in>set (map amount store). x \<in> \<int>"
    by simp
  from assms(2) have bound: "sum_list (map abs (map amount store)) \<le> 2 ^ 53"
    by (simp add: comp_def)
  have "\<forall>ys. mset ys \<subseteq># mset (map amount store) \<longrightarrow>
               double_sum ys = sum_list ys \<and> double_round (sum_list ys) = sum_list ys"
    using double_sums_exact [OF ints bound] by blast
  with modes show ?thesis by blast
qed

theorem summary_modes_agree_witness:
  "category salary_stored \<in> set categories \<and> category taxi_stored \<in> set categories \<and>
   type salary_stored \<in> set types \<and> type taxi_stored \<in> set types \<and>
   amount salary_stored \<in> \<int> \<and> amount taxi_stored \<in> \<int> \<and>
   sum_list (map (\<lambda>t. \<bar>amount t\<bar>) [salary_stored, taxi_stored]) = 140 \<and>
   mset (getFinancialSummary Live ''u1'' 0 1000000000 [salary_stored, taxi_stored]) =
     {#\<lparr>g_id = ''income'', g_total = 100, g_count = 1, avgAmount = 100\<rparr>,
       \<lparr>g_id = ''expense'', g_total = - 40, g_count = 1, avgAmount = - 40\<rparr>#} \<and>
   get_categories Fallback ''u1'' 0 1000000000 [salary_stored, taxi_stored] = Inr []"
proof -
  have c: "\<forall>t\<in>set [salary_stored, taxi_stored].
      category t \<in> set categories \<and> type t \<in> set types \<and> amount t \<in> \<int>"
    by (simp add: salary_stored_def taxi_stored_def categories_def types_def)
  have b: "sum_list (map (\<lambda>t. \<bar>amount t\<bar>) [salary_stored, taxi_stored]) = 140"
    by (simp add: salary_stored_def taxi_stored_def)
  then have b': "sum_list (map (\<lambda>t. \<bar>amount t\<bar>) [salary_stored, taxi_stored]) \<le> 2 ^ 53"
    by simp
  have w: "filter (in_window ''u1'' 0 1000000000) [salary_stored, taxi_stored] =
           [salary_stored, taxi_stored]"
    by (simp add: in_window_def salary_stored_def taxi_stored_def)
  have f: "getFinancialSummary Fallback ''u1'' 0 1000000000 [salary_stored, taxi_stored] =
     [\<lparr>g_id = ''income'', g_total = 100, g_count = 1, avgAmount = 100\<rparr>,
      \<lparr>g_id = ''expense'', g_total = - 40, g_count = 1, avgAmount = - 40\<rparr>]"
    unfolding getFinancialSummary_def getMockFinancialSummary_def Let_def mode.case w
    by (simp add: bump_def salary_stored_def taxi_stored_def)
  from summary_modes_agree [OF c b', of "''u1''" 0 1000000000] c b f
  show ?thesis by simp
qed

text \<open>
  C1 as stated fails: on a store with one expense the live top-categories pipeline
  returns one group and the fallback returns none.
\<close>

theorem top_categories_differ:
  "get_categories Live ''u1'' 0 2000 [lunch_stored] =
     Inr [\<lparr>tc_id = ''food'', tc_count = 1, total_amount = 50\<rparr>] \<and>
   get_categories Fallback ''u1'' 0 2000 [lunch_stored] = Inr [] \<and>
   get_categories Live ''u1'' 0 2000 [lunch_stored] \<noteq>
     get_categories Fallback ''u1'' 0 2000 [lunch_stored]"
  by (simp add: get_categories_def top_categories_pipeline_def in_window_def lunch_stored_def Let_def)

section \<open>Pagination\<close>

lemma concat_pages:
  "concat (map (\<lambda>p. take l (drop ((p - 1) * l) xs)) [1..<Suc n]) = take (n * l) xs"
proof (induction n)
  case 0
  show ?case by simp
next
  case (Suc n)
  have "take (n * l) xs @ take l (drop (n * l) xs) = take (n * l + l) xs"
    by (simp add: take_add)
  with Suc show ?case by (simp add: add.commute)
qed

lemma pages_cover: "0 < (l::nat) \<Longrightarrow> n \<le> ((n + l - 1) div l) * l"
proof -
  assume l: "0 < l"
  have "n + l - 1 = (n + l - 1) div l * l + (n + l - 1) mod l" by simp
  moreover have "(n + l - 1) mod l < l" using l by simp
  ultimately show ?thesis by linarith
qed

lemma find_chain_live:
  "1 \<le> page \<Longrightarrow> 0 < limit \<Longrightarrow>
     find_chain Live f page limit store =
       Inr (take limit (drop ((page - 1) * limit) (sort_key (\<lambda>t. - date t) (filter (matches f) store))))"
proof -
  assume p: "1 \<le> page" and l: "0 < limit"
  from p have eq: "(int page - 1) * int limit = int ((page - 1) * limit)"
    by (simp add: of_nat_diff)
  show ?thesis
    unfolding find_chain_def Let_def mode.case eq using l by (simp del: of_nat_mult)
qed

lemma all_pages_live:
  assumes "0 < limit"
  shows "all_pages Live f n limit store =
         take (n * limit) (sort_key (\<lambda>t. - date t) (filter (matches f) store))"
proof -
  have "map (\<lambda>p. case find_chain Live f p limit store of Inl e \<Rightarrow> [] | Inr ts \<Rightarrow> ts) [1..<Suc n] =
        map (\<lambda>p. take limit (drop ((p - 1) * limit) (sort_key (\<lambda>t. - date t) (filter (matches f) store)))) [1..<Suc n]"
  proof (rule map_cong [OF refl])
    fix p assume "p \<in> set [1..<Suc n]"
    then have "1 \<le> p" by (simp del: upt_Suc)
    from find_chain_live [OF this assms, of f store]
    show "(case find_chain Live f p limit store of Inl e \<Rightarrow> [] | Inr ts \<Rightarrow> ts) =
          take limit (drop ((p - 1) * limit) (sort_key (\<lambda>t. - date t) (filter (matches f) store)))"
      by simp
  qed
  then show ?thesis
    unfolding all_pages_def using concat_pages by metis
qed

lemma mock_find_filter:
  "MockTransaction_find f store =
     filter (\<lambda>t. (f_userId f \<noteq> [] \<longrightarrow> userId t = f_userId f) \<and>
                 (truthy (f_category f) \<longrightarrow> Some (category t) = f_category f) \<and>
                 (truthy (f_type f) \<longrightarrow> Some (type t) = f_type f) \<and>
                 (case f_gte f of None \<Rightarrow> True | Some d \<Rightarrow> date t \<ge> d) \<and>
                 (case f_lte f of None \<Rightarrow> True | Some d \<Rightarrow> date t \<le> d)) store"
  apply (cases "f_gte f"; cases "f_lte f"; cases "truthy (f_category f)"; cases "truthy (f_type f)"; cases "f_userId f = []")
  apply (simp_all add: MockTransaction_find_def Let_def conj_ac)
  done

lemma mock_find_matches:
  assumes "f_userId f \<noteq> []" and "f_category f \<noteq> Some []" and "f_type f \<noteq> Some []"
  shows "MockTransaction_find f store = filter (matches f) store"
  unfolding mock_find_filter
proof (rule filter_cong [OF refl])
  fix t :: transaction
  have c: "(truthy (f_category f) \<longrightarrow> Some (category t) = f_category f) \<longleftrightarrow>
        (case f_category f of None \<Rightarrow> True | Some c \<Rightarrow> category t = c)"
    using assms(2) by (cases "f_category f") (auto simp: truthy_def)
  have ty: "(truthy (f_type f) \<longrightarrow> Some (type t) = f_type f) \<longleftrightarrow>
        (case f_type f of None \<Rightarrow> True | Some c \<Rightarrow> type t = c)"
    using assms(3) by (cases "f_type f") (auto simp: truthy_def)
  show "((f_userId f \<noteq> [] \<longrightarrow> userId t = f_userId f) \<and>
                 (truthy (f_category f) \<longrightarrow> Some (category t) = f_category f) \<and>
                 (truthy (f_type f) \<longrightarrow> Some (type t) = f_type f) \<and>
                 (case f_gte f of None \<Rightarrow> True | Some d \<Rightarrow> date t \<ge> d) \<and>
                 (case f_lte f of None \<Rightarrow> True | Some d \<Rightarrow> date t \<le> d)) = matches f t"
    unfolding c ty matches_def using assms(1) by simp
qed

lemma sort_date_descending:
  "sorted_wrt (\<lambda>a b. date a \<ge> date b) (sort_key (\<lambda>t. - date t) ts)"
proof -
  have "sorted (map (\<lambda>t. - date t) (sort_key (\<lambda>t. - date t) ts))"
    by (rule sorted_sort_key)
  then show ?thesis by (simp add: sorted_map)
qed

text \<open>
  Live mode pages as the claim on pagination says. For a positive page size, page
  \<open>p \<ge> 1\<close> is the slice of length at most \<open>limit\<close> at offset \<open>(p - 1) * limit\<close> of the
  filtered documents sorted by descending date, the total is counted over the whole
  filtered set, and the pages 1 to \<open>ceil(total / limit)\<close> concatenated are the sorted
  filtered set, each document once.
\<close>

lemma live_pagination:
  assumes "0 < limit"
  shows "(1 \<le> page \<longrightarrow>
            find_chain Live f page limit store =
              Inr (take limit (drop ((page - 1) * limit)
                     (sort_key (\<lambda>t. - date t) (filter (matches f) store))))) \<and>
         countDocuments Live f store = length (filter (matches f) store) \<and>
         (\<exists>n. pages (countDocuments Live f store) limit = Some n \<and>
              all_pages Live f n limit store = sort_key (\<lambda>t. - date t) (filter (matches f) store)) \<and>
         sorted_wrt (\<lambda>a b. date a \<ge> date b) (sort_key (\<lambda>t. - date t) (filter (matches f) store)) \<and>
         mset (sort_key (\<lambda>t. - date t) (filter (matches f) store)) = mset (filter (matches f) store)"
proof -
  let ?full = "sort_key (\<lambda>t. - date t) (filter (matches f) store)"
  let ?n = "(length (filter (matches f) store) + limit - 1) div limit"
  have cnt: "countDocuments Live f store = length (filter (matches f) store)"
    by (simp add: countDocuments_def)
  have pg: "pages (countDocuments Live f store) limit = Some ?n"
    using assms by (simp add: pages_def cnt)
  have "length ?full \<le> ?n * limit"
    using pages_cover [OF assms, of "length (filter (matches f) store)"] by simp
  then have "all_pages Live f ?n limit store = ?full"
    by (simp add: all_pages_live [OF assms])
  with pg have ex: "\<exists>n. pages (countDocuments Live f store) limit = Some n \<and>
              all_pages Live f n limit store = ?full"
    by blast
  show ?thesis
    using find_chain_live [OF _ assms, of page f store] cnt ex
      sort_date_descending [of "filter (matches f) store"]
    by simp
qed

lemma user1_matches:
  "filter (matches user1_filter) [salary_stored, taxi_stored] = [salary_stored, taxi_stored]"
proof -
  have "matches user1_filter salary_stored"
    by (simp add: matches_def user1_filter_def build_filter_def truthy_def salary_stored_def)
  moreover have "matches user1_filter taxi_stored"
    by (simp add: matches_def user1_filter_def build_filter_def truthy_def taxi_stored_def)
  ultimately show ?thesis by simp
qed

lemma live_pagination_example:
  "pages (countDocuments Live user1_filter [salary_stored, taxi_stored]) 1 = Some 2 \<and>
   all_pages Live user1_filter 2 1 [salary_stored, taxi_stored] = [taxi_stored, salary_stored] \<and>
   find_chain Live user1_filter 2 1 [salary_stored, taxi_stored] = Inr [salary_stored]"
proof -
  have s: "sort_key (\<lambda>t. - date t) [salary_stored, taxi_stored] = [taxi_stored, salary_stored]"
    by (simp add: salary_stored_def taxi_stored_def)
  have l: "0 < (1::nat)" by simp
  have c: "countDocuments Live user1_filter [salary_stored, taxi_stored] = 2"
    unfolding countDocuments_def mode.case user1_matches by simp
  have p: "pages 2 1 = Some 2"
    by (simp add: pages_def)
  from live_pagination [OF l, of 2 user1_filter "[salary_stored, taxi_stored]"]
  obtain n where n: "pages (countDocuments Live user1_filter [salary_stored, taxi_stored]) 1 = Some n"
    and a: "all_pages Live user1_filter n 1 [salary_stored, taxi_stored] =
            sort_key (\<lambda>t. - date t) (filter (matches user1_filter) [salary_stored, taxi_stored])"
    and f: "find_chain Live user1_filter 2 1 [salary_stored, taxi_stored] =
            Inr (take 1 (drop ((2 - 1) * 1)
              (sort_key (\<lambda>t. - date t) (filter (matches user1_filter) [salary_stored, taxi_stored]))))"
    by auto
  from n c p have "n = 2" by simp
  with n a f show ?thesis
    unfolding user1_matches s by simp
qed

text \<open>
  C4. What the code does on the listing route in fallback mode: with two transactions of
  the user in the store, which \<^verbatim>\<open>countDocuments\<close> counts, the route answers 500 for page 1
  and for page 2 at page size 1, since it calls \<^verbatim>\<open>.sort\<close> on the promise of the async
  \<^verbatim>\<open>find\<close>; no page is served. In live mode the same requests return the newer and then
  the older transaction, with two pages and a total of 2.
\<close>

theorem fallback_listing_fails:
  "get_user_transactions Fallback ''u1'' 1 1 None None None None [salary_stored, taxi_stored] =
     Inl Internal \<and>
   get_user_transactions Fallback ''u1'' 2 1 None None None None [salary_stored, taxi_stored] =
     Inl Internal \<and>
   countDocuments Fallback user1_filter [salary_stored, taxi_stored] = 2 \<and>
   get_user_transactions Live ''u1'' 1 1 None None None None [salary_stored, taxi_stored] =
     Inr ([taxi_stored], \<lparr>pg_current = 1, pg_pages = Some 2, pg_total = 2\<rparr>) \<and>
   get_user_transactions Live ''u1'' 2 1 None None None None [salary_stored, taxi_stored] =
     Inr ([salary_stored], \<lparr>pg_current = 2, pg_pages = Some 2, pg_total = 2\<rparr>)"
proof -
  have m: "MockTransaction_find user1_filter [salary_stored, taxi_stored] = [salary_stored, taxi_stored]"
    by (simp add: MockTransaction_find_def Let_def user1_filter_def build_filter_def truthy_def
          salary_stored_def taxi_stored_def)
  have s: "sort_key (\<lambda>t. - date t) [salary_stored, taxi_stored] = [taxi_stored, salary_stored]"
    by (simp add: salary_stored_def taxi_stored_def)
  have f: "build_filter ''u1'' None None None None = user1_filter"
    by (simp add: user1_filter_def)
  have c: "countDocuments Fallback user1_filter [salary_stored, taxi_stored] = 2"
    unfolding countDocuments_def mode.case m by simp
  have l1: "find_chain Live user1_filter 1 1 [salary_stored, taxi_stored] = Inr [taxi_stored]"
    unfolding find_chain_def Let_def mode.case user1_matches s by simp
  have l2: "find_chain Live user1_filter 2 1 [salary_stored, taxi_stored] = Inr [salary_stored]"
    unfolding find_chain_def Let_def mode.case user1_matches s by simp
  have cl: "countDocuments Live user1_filter [salary_stored, taxi_stored] = 2"
    unfolding countDocuments_def mode.case user1_matches by simp
  have fb: "\<And>p. find_chain Fallback user1_filter p 1 [salary_stored, taxi_stored] = Inl Internal"
    by (simp add: find_chain_def)
  show ?thesis
    unfolding get_user_transactions_def Let_def f l1 l2 cl fb
    using c by (simp add: pages_def)
qed

section \<open>The mock pool on the statements of the routes\<close>

lemma dispatch_profile:
  "string_includes (sql_text SelectProfile) ''SELECT'' \<and>
   string_includes (sql_text SelectProfile) ''users'' \<and>
   string_includes (sql_text SelectProfile) ''email''"
  by simp

lemma dispatch_stats:
  "string_includes (sql_text SelectStats) ''SELECT'' \<and>
   string_includes (sql_text SelectStats) ''users'' \<and>
   \<not> string_includes (sql_text SelectStats) ''email'' \<and>
   \<not> string_includes (sql_text SelectStats) ''INSERT INTO users'' \<and>
   \<not> string_includes (sql_text SelectStats) ''INSERT INTO user_profiles'' \<and>
   string_includes (sql_text SelectStats) ''user_profiles''"
  by simp

lemma dispatch_update_user:
  "\<not> string_includes (sql_text UpdateUser) ''SELECT'' \<and>
   \<not> string_includes (sql_text UpdateUser) ''INSERT INTO users'' \<and>
   \<not> string_includes (sql_text UpdateUser) ''INSERT INTO user_profiles''"
  by simp

lemma dispatch_update_profile:
  "\<not> string_includes (sql_text UpdateProfile) ''SELECT'' \<and>
   \<not> string_includes (sql_text UpdateProfile) ''INSERT INTO users'' \<and>
   \<not> string_includes (sql_text UpdateProfile) ''INSERT INTO user_profiles''"
  by simp

lemma dispatch_select_email:
  "string_includes (sql_text SelectIdByEmail) ''SELECT'' \<and>
   string_includes (sql_text SelectIdByEmail) ''users'' \<and>
   string_includes (sql_text SelectIdByEmail) ''email''"
  by simp

lemma dispatch_insert_user:
  "\<not> string_includes (sql_text InsertUser) ''SELECT'' \<and>
   string_includes (sql_text InsertUser) ''INSERT INTO users''"
  by simp

lemma dispatch_insert_profile:
  "\<not> string_includes (sql_text InsertProfile) ''SELECT'' \<and>
   \<not> string_includes (sql_text InsertProfile) ''INSERT INTO users'' \<and>
   string_includes (sql_text InsertProfile) ''INSERT INTO user_profiles''"
  by simp

lemma mock_select_email:
  "mock_query (sql_text SelectIdByEmail) ins newid now db =
     (case find (\<lambda>u. Some (email u) = in_email ins) (users db) of
        Some u \<Rightarrow> ([user_row u], db) | None \<Rightarrow> ([], db))"
  using dispatch_select_email unfolding mock_query_def by (simp only: if_True simp_thms)

lemma mock_select_profile:
  "mock_query (sql_text SelectProfile) ins newid now db =
     (case find (\<lambda>u. Some (email u) = in_email ins) (users db) of
        Some u \<Rightarrow> ([user_row u], db) | None \<Rightarrow> ([], db))"
  using dispatch_profile unfolding mock_query_def by (simp only: if_True simp_thms)

lemma mock_insert_user:
  "mock_query (sql_text InsertUser) ins newid now db =
     (let user = \<lparr>uid = newid, email = js_string (in_email ins),
                   password = js_string (in_password ins), name = js_string (in_name ins),
                   age = in_age ins, created_at = now, updated_at = None, is_active = True\<rparr>
      in ([user_row user], db\<lparr>users := users_set (users db) user\<rparr>))"
  using dispatch_insert_user unfolding mock_query_def by (simp only: if_True if_False simp_thms)

lemma mock_insert_profile:
  "mock_query (sql_text InsertProfile) ins newid now db =
     (let profile = \<lparr>pid = newid, user_id = js_string (in_user_id ins),
                      p_monthly_income = Some (js_or_zero (in_monthly_income ins)),
                      p_financial_goals = None,
                      p_spending_limit = Some (js_or_zero (in_spending_limit ins)),
                      p_updated_at = None\<rparr>
      in ([profile_row profile], db\<lparr>user_profiles := profiles_set (user_profiles db) profile\<rparr>))"
  using dispatch_insert_profile unfolding mock_query_def by (simp only: if_True if_False simp_thms)

lemma mock_select_stats:
  "mock_query (sql_text SelectStats) ins newid now db =
     (let user = find (\<lambda>u. Some (uid u) = in_id ins) (users db);
          profile = find (\<lambda>p. Some (user_id p) = in_id ins) (user_profiles db)
      in case user of
           Some u \<Rightarrow>
             ([\<lparr>monthly_income =
                  Some (case profile of None \<Rightarrow> 0 | Some p \<Rightarrow> js_or_zero (p_monthly_income p)),
                spending_limit =
                  Some (case profile of None \<Rightarrow> 0 | Some p \<Rightarrow> js_or_zero (p_spending_limit p)),
                financial_goals =
                  (case profile of None \<Rightarrow> None | Some p \<Rightarrow> js_or_null (p_financial_goals p)),
                r_user = Some u, r_profile = None\<rparr>], db)
         | None \<Rightarrow> ([], db))"
  using dispatch_stats unfolding mock_query_def by (simp only: if_True if_False simp_thms)

lemma mock_update_user: "mock_query (sql_text UpdateUser) ins newid now db = ([], db)"
  using dispatch_update_user unfolding mock_query_def by (simp only: if_True if_False simp_thms)

lemma mock_update_profile: "mock_query (sql_text UpdateProfile) ins newid now db = ([], db)"
  using dispatch_update_profile unfolding mock_query_def by (simp only: if_True if_False simp_thms)

section \<open>Registration\<close>

lemma users_set_mem: "u \<in> set (users_set us u)"
  by (induction us) auto

lemma profiles_set_mem: "p \<in> set (profiles_set ps p)"
  by (induction ps) auto

lemma validate_age:
  "registerSchema_validate is_email b = Inr v \<Longrightarrow>
     (case rv_age v of None \<Rightarrow> True | Some a \<Rightarrow> 13 \<le> a \<and> a \<le> 120)"
  unfolding registerSchema_validate_def bind_err_def
  by (auto split: sum.splits if_splits option.splits)

lemma bind_int_validated:
  "registerSchema_validate is_email b = Inr v \<Longrightarrow> bind_int (rv_age v) = Inr (rv_age v)"
  using validate_age [of is_email b v]
  by (cases "rv_age v") (simp_all add: bind_int_def fits_int_def)

lemma register_conflict_fallback:
  assumes v: "registerSchema_validate is_email b = Inr v"
    and ex: "\<exists>u\<in>set (users db). email u = rv_email v"
  shows "register Fallback is_email hash now new_uid new_pid b db = (Inl Conflict, db)"
proof -
  from ex have "find (\<lambda>u. Some (email u) = Some (rv_email v)) (users db) \<noteq> None"
    by (auto simp: find_None_iff)
  then obtain u where "find (\<lambda>u. Some (email u) = Some (rv_email v)) (users db) = Some u"
    by blast
  then show ?thesis
    unfolding register_def v pool_query_def mock_select_email
    by (simp add: no_inputs_def)
qed

lemma register_conflict_live:
  assumes v: "registerSchema_validate is_email b = Inr v"
    and ex: "\<exists>u\<in>set (users db). email_collation db (email u) (rv_email v)"
  shows "register Live is_email hash now new_uid new_pid b db = (Inl Conflict, db)"
proof -
  from ex have "filter (same_email db (Some (rv_email v))) (users db) \<noteq> []"
    by (auto simp: filter_empty_conv same_email_def)
  then show ?thesis
    unfolding register_def v pool_query_def
    by (simp add: no_inputs_def)
qed

lemma register_fallback_fresh:
  assumes v: "registerSchema_validate is_email b = Inr v"
    and fresh: "\<not> (\<exists>u\<in>set (users db). email u = rv_email v)"
  shows "register Fallback is_email hash now new_uid new_pid b db =
     (let user = \<lparr>uid = new_uid, email = rv_email v, password = hash (rv_password v),
                   name = rv_name v, age = rv_age v, created_at = now, updated_at = None,
                   is_active = True\<rparr>;
          profile = \<lparr>pid = new_pid, user_id = new_uid, p_monthly_income = Some 0,
                      p_financial_goals = None, p_spending_limit = Some 0, p_updated_at = None\<rparr>
      in (Inr user, db\<lparr>users := users_set (users db) user,
                       user_profiles := profiles_set (user_profiles db) profile\<rparr>))"
proof -
  from fresh have "find (\<lambda>u. Some (email u) = Some (rv_email v)) (users db) = None"
    by (auto simp: find_None_iff)
  then show ?thesis
    unfolding register_def v pool_query_def mock_select_email mock_insert_user mock_insert_profile
    by (simp add: no_inputs_def Let_def user_row_def js_string_def js_or_zero_def)
qed

lemma register_live_fresh:
  assumes v: "registerSchema_validate is_email b = Inr v"
    and fresh: "\<not> (\<exists>u\<in>set (users db). email_collation db (email u) (rv_email v))"
    and uid_new: "new_uid \<notin> uid ` set (users db)"
    and pid_new: "new_pid \<notin> pid ` set (user_profiles db)"
    and fits: "length (rv_email v) \<le> 255" "length (hash (rv_password v)) \<le> 255"
      "length (rv_name v) \<le> 255"
  shows "register Live is_email hash now new_uid new_pid b db =
     (let user = \<lparr>uid = new_uid, email = rv_email v, password = hash (rv_password v),
                   name = rv_name v, age = rv_age v, created_at = now, updated_at = Some now,
                   is_active = True\<rparr>;
          profile = \<lparr>pid = new_pid, user_id = new_uid, p_monthly_income = Some 0,
                      p_financial_goals = None, p_spending_limit = Some 0,
                      p_updated_at = Some now\<rparr>
      in (Inr user, db\<lparr>users := users db @ [user],
                       user_profiles := user_profiles db @ [profile]\<rparr>))"
proof -
  from fresh have f: "filter (same_email db (Some (rv_email v))) (users db) = []"
    by (auto simp: filter_empty_conv same_email_def)
  from fresh uid_new have n:
    "\<not> (\<exists>u\<in>set (users db). email_collation db (email u) (rv_email v) \<or> uid u = new_uid)"
    by auto
  from pid_new have p: "\<not> (\<exists>p\<in>set (user_profiles db). pid p = new_pid)"
    by auto
  show ?thesis
    unfolding register_def v pool_query_def
    using f n p fits bind_int_validated [OF v]
    by (simp add: no_inputs_def Let_def user_row_def bind_err_def)
qed

text \<open>
  C7, as amended. For a body that passes validation. In fallback mode: when a stored
  user has exactly that email, registration answers Conflict and the store is unchanged;
  for every other email, one that differs from a stored email only in the case of its
  letters included, registration succeeds and stores an active user with that email and
  a profile with income and limit 0. In live mode: when a stored email equals the new one
  under the collation of the column (as an identical email does when the collation is
  reflexive), registration answers Conflict and the store is unchanged; when none does,
  the generated ids are fresh, and email, password hash and name have at most 255
  characters, registration succeeds in the same way.
\<close>

theorem register_email_unique:
  assumes "registerSchema_validate is_email b = Inr v"
  shows "((\<exists>u\<in>set (users db). email u = rv_email v) \<longrightarrow>
            register Fallback is_email hash now new_uid new_pid b db = (Inl Conflict, db)) \<and>
         (\<not> (\<exists>u\<in>set (users db). email u = rv_email v) \<longrightarrow>
            (\<exists>u db'. register Fallback is_email hash now new_uid new_pid b db = (Inr u, db') \<and>
                uid u = new_uid \<and> email u = rv_email v \<and> is_active u \<and>
                u \<in> set (users db') \<and>
                (\<exists>p\<in>set (user_profiles db'). user_id p = new_uid \<and>
                    p_monthly_income p = Some 0 \<and> p_spending_limit p = Some 0))) \<and>
         ((\<exists>u\<in>set (users db). email_collation db (email u) (rv_email v)) \<longrightarrow>
            register Live is_email hash now new_uid new_pid b db = (Inl Conflict, db)) \<and>
         ((\<forall>x. email_collation db x x) \<and> (\<exists>u\<in>set (users db). email u = rv_email v) \<longrightarrow>
            register Live is_email hash now new_uid new_pid b db = (Inl Conflict, db)) \<and>
         (\<not> (\<exists>u\<in>set (users db). email_collation db (email u) (rv_email v)) \<and>
          new_uid \<notin> uid ` set (users db) \<and> new_pid \<notin> pid ` set (user_profiles db) \<and>
          length (rv_email v) \<le> 255 \<and> length (hash (rv_password v)) \<le> 255 \<and>
          length (rv_name v) \<le> 255 \<longrightarrow>
            (\<exists>u db'. register Live is_email hash now new_uid new_pid b db = (Inr u, db') \<and>
                uid u = new_uid \<and> email u = rv_email v \<and> is_active u \<and>
                u \<in> set (users db') \<and>
                (\<exists>p\<in>set (user_profiles db'). user_id p = new_uid \<and>
                    p_monthly_income p = Some 0 \<and> p_spending_limit p = Some 0)))"
proof (intro conjI impI)
  assume "\<exists>u\<in>set (users db). email u = rv_email v"
  with assms show "register Fallback is_email hash now new_uid new_pid b db = (Inl Conflict, db)"
    by (rule register_conflict_fallback)
next
  assume "\<exists>u\<in>set (users db). email_collation db (email u) (rv_email v)"
  with assms show "register Live is_email hash now new_uid new_pid b db = (Inl Conflict, db)"
    by (rule register_conflict_live)
next
  assume "(\<forall>x. email_collation db x x) \<and> (\<exists>u\<in>set (users db). email u = rv_email v)"
  then have "\<exists>u\<in>set (users db). email_collation db (email u) (rv_email v)"
    by metis
  with assms show "register Live is_email hash now new_uid new_pid b db = (Inl Conflict, db)"
    by (rule register_conflict_live)
next
  assume a: "\<not> (\<exists>u\<in>set (users db). email u = rv_email v)"
  let ?U = "\<lparr>uid = new_uid, email = rv_email v, password = hash (rv_password v),
                 name = rv_name v, age = rv_age v, created_at = now, updated_at = None,
                 is_active = True\<rparr>"
  let ?P = "\<lparr>pid = new_pid, user_id = new_uid, p_monthly_income = Some 0,
                    p_financial_goals = None, p_spending_limit = Some 0, p_updated_at = None\<rparr>"
  let ?db' = "db\<lparr>users := users_set (users db) ?U,
                 user_profiles := profiles_set (user_profiles db) ?P\<rparr>"
  have r: "register Fallback is_email hash now new_uid new_pid b db = (Inr ?U, ?db')"
    using register_fallback_fresh [OF assms a] by (simp add: Let_def)
  have u: "?U \<in> set (users ?db')" by (simp add: users_set_mem)
  have p: "?P \<in> set (user_profiles ?db')" by (simp add: profiles_set_mem)
  have "\<exists>p\<in>set (user_profiles ?db'). user_id p = new_uid \<and>
          p_monthly_income p = Some 0 \<and> p_spending_limit p = Some 0"
    by (rule bexI [OF _ p]) simp
  with r u show "\<exists>u db'. register Fallback is_email hash now new_uid new_pid b db = (Inr u, db') \<and>
                uid u = new_uid \<and> email u = rv_email v \<and> is_active u \<and>
                u \<in> set (users db') \<and>
                (\<exists>p\<in>set (user_profiles db'). user_id p = new_uid \<and>
                    p_monthly_income p = Some 0 \<and> p_spending_limit p = Some 0)"
    by (intro exI [of _ ?U] exI [of _ ?db']) simp
next
  assume a: "\<not> (\<exists>u\<in>set (users db). email_collation db (email u) (rv_email v)) \<and>
          new_uid \<notin> uid ` set (users db) \<and> new_pid \<notin> pid ` set (user_profiles db) \<and>
          length (rv_email v) \<le> 255 \<and> length (hash (rv_password v)) \<le> 255 \<and>
          length (rv_name v) \<le> 255"
  then have f: "\<not> (\<exists>u\<in>set (users db). email_collation db (email u) (rv_email v))"
    and u: "new_uid \<notin> uid ` set (users db)" and p: "new_pid \<notin> pid ` set (user_profiles db)"
    and l: "length (rv_email v) \<le> 255" "length (hash (rv_password v)) \<le> 255"
      "length (rv_name v) \<le> 255"
    by simp_all
  let ?U = "\<lparr>uid = new_uid, email = rv_email v, password = hash (rv_password v),
                 name = rv_name v, age = rv_age v, created_at = now, updated_at = Some now,
                 is_active = True\<rparr>"
  let ?P = "\<lparr>pid = new_pid, user_id = new_uid, p_monthly_income = Some 0,
                    p_financial_goals = None, p_spending_limit = Some 0,
                    p_updated_at = Some now\<rparr>"
  let ?db' = "db\<lparr>users := users db @ [?U], user_profiles := user_profiles db @ [?P]\<rparr>"
  have r: "register Live is_email hash now new_uid new_pid b db = (Inr ?U, ?db')"
    using register_live_fresh [where hash = hash, OF assms f u p l] by (simp add: Let_def)
  have pm: "?P \<in> set (user_profiles ?db')" by simp
  have "\<exists>p\<in>set (user_profiles ?db'). user_id p = new_uid \<and>
          p_monthly_income p = Some 0 \<and> p_spending_limit p = Some 0"
    by (rule bexI [OF _ pm]) simp
  with r show "\<exists>u db'. register Live is_email hash now new_uid new_pid b db = (Inr u, db') \<and>
                uid u = new_uid \<and> email u = rv_email v \<and> is_active u \<and>
                u \<in> set (users db') \<and>
                (\<exists>p\<in>set (user_profiles db'). user_id p = new_uid \<and>
                    p_monthly_income p = Some 0 \<and> p_spending_limit p = Some 0)"
    by (intro exI [of _ ?U] exI [of _ ?db']) simp
qed

lemma validate_alice:
  "registerSchema_validate simple_email alice_body =
     Inr \<lparr>rv_email = ''alice@example.com'', rv_password = ''secret1'', rv_name = ''Alice'',
          rv_age = Some 30\<rparr>"
  by (simp add: registerSchema_validate_def alice_body_def simple_email_def bind_err_def)

lemma validate_upper_alice:
  "registerSchema_validate simple_email upper_alice_body =
     Inr \<lparr>rv_email = ''ALICE@example.com'', rv_password = ''secret2'', rv_name = ''Alice Two'',
          rv_age = None\<rparr>"
  by (simp add: registerSchema_validate_def upper_alice_body_def simple_email_def bind_err_def)

lemma validate_long_name:
  "registerSchema_validate simple_email long_name_body =
     Inr \<lparr>rv_email = ''bob@example.com'', rv_password = ''secret3'',
          rv_name = replicate 256 (CHR ''b''), rv_age = None\<rparr>"
  by (simp add: registerSchema_validate_def long_name_body_def simple_email_def bind_err_def)

lemma upper_alice_same:
  "ci_equal ''alice@example.com'' ''ALICE@example.com''"
  by (simp add: ci_equal_def ascii_lower_def)

theorem register_email_unique_witness:
  "register Fallback simple_email hash0 1000 ''u1'' ''p1'' alice_body empty_db = (Inr alice, alice_db) \<and>
   register Fallback simple_email hash0 2000 ''u2'' ''p2'' alice_body alice_db = (Inl Conflict, alice_db) \<and>
   register Live simple_email hash0 2000 ''u2'' ''p2'' alice_body alice_db = (Inl Conflict, alice_db) \<and>
   register Live simple_email hash0 2000 ''u2'' ''p2'' upper_alice_body alice_db =
     (Inl Conflict, alice_db)"
proof -
  have first: "register Fallback simple_email hash0 1000 ''u1'' ''p1'' alice_body empty_db =
      (Inr alice, alice_db)"
    unfolding register_def validate_alice pool_query_def mock_select_email mock_insert_user
      mock_insert_profile
    by (simp add: no_inputs_def Let_def user_row_def js_string_def js_or_zero_def empty_db_def
          alice_def alice_db_def alice_profile_def hash0_def)
  have ex: "\<exists>u\<in>set (users alice_db).
      email u = rv_email \<lparr>rv_email = ''alice@example.com'', rv_password = ''secret1'',
                           rv_name = ''Alice'', rv_age = Some 30\<rparr>"
    by (simp add: alice_db_def alice_def)
  have ex': "\<exists>u\<in>set (users alice_db).
      email_collation alice_db (email u)
        (rv_email \<lparr>rv_email = ''alice@example.com'', rv_password = ''secret1'',
                           rv_name = ''Alice'', rv_age = Some 30\<rparr>)"
    by (simp add: alice_db_def alice_def ci_equal_def)
  have ex'': "\<exists>u\<in>set (users alice_db).
      email_collation alice_db (email u)
        (rv_email \<lparr>rv_email = ''ALICE@example.com'', rv_password = ''secret2'',
                           rv_name = ''Alice Two'', rv_age = None\<rparr>)"
    using upper_alice_same by (simp add: alice_db_def alice_def)
  from register_email_unique [OF validate_alice, of alice_db hash0 2000 "''u2''" "''p2''"]
       register_email_unique [OF validate_upper_alice, of alice_db hash0 2000 "''u2''" "''p2''"]
       ex ex' ex'' first
  show ?thesis by blast
qed

text \<open>
  C7 as stated fails. In fallback mode an email that differs from a stored one only in
  the case of its letters registers a second account, although emails are unique without
  regard to case. In live mode a fresh email with a name of 256 characters, which the
  validation accepts, is refused by the column and the route answers 500.
\<close>

theorem case_variant_registers:
  "register Fallback simple_email hash0 2000 ''u2'' ''p2'' upper_alice_body alice_db =
     (Inr upper_alice,
      \<lparr>users = [alice, upper_alice], user_profiles = [alice_profile, upper_alice_profile],
        email_collation = ci_equal\<rparr>) \<and>
   map ascii_lower (email upper_alice) = map ascii_lower (email alice) \<and>
   register Live simple_email hash0 2000 ''u2'' ''p2'' long_name_body alice_db =
     (Inl Internal, alice_db)"
proof -
  have "register Fallback simple_email hash0 2000 ''u2'' ''p2'' upper_alice_body alice_db =
     (Inr upper_alice,
      \<lparr>users = [alice, upper_alice], user_profiles = [alice_profile, upper_alice_profile],
        email_collation = ci_equal\<rparr>)"
    unfolding register_def validate_upper_alice pool_query_def mock_select_email mock_insert_user
      mock_insert_profile
    by (simp add: no_inputs_def Let_def user_row_def js_string_def js_or_zero_def
          alice_def alice_db_def alice_profile_def hash0_def upper_alice_def
          upper_alice_profile_def)
  moreover have "map ascii_lower (email upper_alice) = map ascii_lower (email alice)"
    by (simp add: upper_alice_def alice_def ascii_lower_def)
  moreover have "register Live simple_email hash0 2000 ''u2'' ''p2'' long_name_body alice_db =
     (Inl Internal, alice_db)"
    unfolding register_def validate_long_name pool_query_def
    by (simp add: no_inputs_def Let_def bind_err_def bind_int_def same_email_def
          alice_db_def alice_def ci_equal_def ascii_lower_def)
  ultimately show ?thesis by simp
qed

section \<open>Profile lookup\<close>

lemma concat_filter_none:
  "find P us = None \<Longrightarrow> concat (map f (filter P us)) = []"
  by (induction us) (auto split: if_splits)

lemma concat_filter_some:
  "find P us = Some u \<Longrightarrow> \<exists>rest. concat (map f (filter P us)) = f u @ rest"
  by (induction us) (auto split: if_splits)

lemma filter_find_none: "find Q ps = None \<Longrightarrow> filter Q ps = []"
  by (induction ps) (auto split: if_splits)

lemma filter_find_some: "find Q ps = Some q \<Longrightarrow> \<exists>qs. filter Q ps = q # qs"
  by (induction ps) (auto split: if_splits)

lemma left_join_first:
  "\<exists>rest. left_join u ps =
     (case find (\<lambda>p. user_id p = uid u) ps of
        None \<Rightarrow> \<lparr>monthly_income = None, spending_limit = None, financial_goals = None,
                  r_user = Some u, r_profile = None\<rparr>
      | Some p \<Rightarrow> \<lparr>monthly_income = p_monthly_income p, spending_limit = p_spending_limit p,
                    financial_goals = p_financial_goals p, r_user = Some u,
                    r_profile = None\<rparr>) # rest"
proof (cases "find (\<lambda>p. user_id p = uid u) ps")
  case None
  then show ?thesis
    by (simp add: left_join_def filter_find_none)
next
  case (Some p)
  then obtain qs where "filter (\<lambda>p. user_id p = uid u) ps = p # qs"
    using filter_find_some by fastforce
  with Some show ?thesis
    by (simp add: left_join_def)
qed

lemma get_profile_live:
  "get_profile Live i db =
     (case find (\<lambda>u. uid u = i \<and> is_active u) (users db) of
        None \<Rightarrow> Inl NotFound
      | Some u \<Rightarrow>
          (case find (\<lambda>p. user_id p = i) (user_profiles db) of
             None \<Rightarrow> Inr \<lparr>pr_user = Some u, pr_monthly_income = None,
                           pr_financial_goals = None, pr_spending_limit = None\<rparr>
           | Some p \<Rightarrow> Inr \<lparr>pr_user = Some u, pr_monthly_income = p_monthly_income p,
                             pr_financial_goals = p_financial_goals p,
                             pr_spending_limit = p_spending_limit p\<rparr>))"
proof (cases "find (\<lambda>u. uid u = i \<and> is_active u) (users db)")
  case None
  then have "select_join (no_inputs\<lparr>in_id := Some i\<rparr>) db = []"
    by (simp add: select_join_def concat_filter_none)
  with None show ?thesis
    by (simp add: get_profile_def pool_query_def)
next
  case (Some u)
  then have ui: "uid u = i"
    by (auto simp: find_Some_iff)
  from Some obtain rest where
    "select_join (no_inputs\<lparr>in_id := Some i\<rparr>) db = left_join u (user_profiles db) @ rest"
    using concat_filter_some [of "\<lambda>u. uid u = i \<and> is_active u" "users db" u
            "\<lambda>u. left_join u (user_profiles db)"]
    by (auto simp: select_join_def)
  moreover obtain rest' where "left_join u (user_profiles db) =
     (case find (\<lambda>p. user_id p = uid u) (user_profiles db) of
        None \<Rightarrow> \<lparr>monthly_income = None, spending_limit = None, financial_goals = None,
                  r_user = Some u, r_profile = None\<rparr>
      | Some p \<Rightarrow> \<lparr>monthly_income = p_monthly_income p, spending_limit = p_spending_limit p,
                    financial_goals = p_financial_goals p, r_user = Some u,
                    r_profile = None\<rparr>) # rest'"
    using left_join_first by blast
  ultimately show ?thesis
    using Some ui
    by (cases "find (\<lambda>p. user_id p = i) (user_profiles db)")
       (simp_all add: get_profile_def pool_query_def)
qed

lemma users_set_subset: "set (users_set us u) \<subseteq> insert u (set us)"
  by (induction us) auto

lemma mock_query_active:
  assumes "\<forall>u\<in>set (users db). is_active u"
  shows "\<forall>u\<in>set (users (snd (mock_query q ins newid now db))). is_active u"
proof -
  have ins: "\<forall>u\<in>set (users_set (users db)
        \<lparr>uid = newid, email = js_string (in_email ins), password = js_string (in_password ins),
          name = js_string (in_name ins), age = in_age ins, created_at = now, updated_at = None,
          is_active = True\<rparr>). is_active u"
    using assms users_set_subset by fastforce
  show ?thesis
    unfolding mock_query_def Let_def
    using assms ins by (simp split: option.splits)
qed

text \<open>
  C5, as amended. The live profile lookup returns the active user with the given id with
  the columns of its profile, which are NULL when the user has no profile row, and
  nothing for an unknown or inactive user. The join of the fallback, which the stats
  query reaches, returns the stored user with the profile fields merged in, 0 for
  \<^verbatim>\<open>monthly_income\<close> and \<^verbatim>\<open>spending_limit\<close> and null for \<^verbatim>\<open>financial_goals\<close> when there is no
  profile or no value; it does not look at \<^verbatim>\<open>is_active\<close>, and no query of the fallback
  makes a user inactive.
\<close>

theorem profile_lookup:
  "get_profile Live i db =
     (case find (\<lambda>u. uid u = i \<and> is_active u) (users db) of
        None \<Rightarrow> Inl NotFound
      | Some u \<Rightarrow>
          (case find (\<lambda>p. user_id p = i) (user_profiles db) of
             None \<Rightarrow> Inr \<lparr>pr_user = Some u, pr_monthly_income = None,
                           pr_financial_goals = None, pr_spending_limit = None\<rparr>
           | Some p \<Rightarrow> Inr \<lparr>pr_user = Some u, pr_monthly_income = p_monthly_income p,
                             pr_financial_goals = p_financial_goals p,
                             pr_spending_limit = p_spending_limit p\<rparr>)) \<and>
   mock_query (sql_text SelectStats) (no_inputs\<lparr>in_id := Some i\<rparr>) newid now db =
     (case find (\<lambda>u. uid u = i) (users db) of
        None \<Rightarrow> ([], db)
      | Some u \<Rightarrow>
          (case find (\<lambda>p. user_id p = i) (user_profiles db) of
             None \<Rightarrow> ([\<lparr>monthly_income = Some 0, spending_limit = Some 0,
                         financial_goals = None, r_user = Some u, r_profile = None\<rparr>], db)
           | Some p \<Rightarrow> ([\<lparr>monthly_income = Some (js_or_zero (p_monthly_income p)),
                           spending_limit = Some (js_or_zero (p_spending_limit p)),
                           financial_goals = js_or_null (p_financial_goals p),
                           r_user = Some u, r_profile = None\<rparr>], db))) \<and>
   ((\<forall>u\<in>set (users db). is_active u) \<longrightarrow>
      (\<forall>u\<in>set (users (snd (mock_query q ins newid' now' db))). is_active u))"
proof -
  have "mock_query (sql_text SelectStats) (no_inputs\<lparr>in_id := Some i\<rparr>) newid now db =
     (case find (\<lambda>u. uid u = i) (users db) of
        None \<Rightarrow> ([], db)
      | Some u \<Rightarrow>
          (case find (\<lambda>p. user_id p = i) (user_profiles db) of
             None \<Rightarrow> ([\<lparr>monthly_income = Some 0, spending_limit = Some 0,
                         financial_goals = None, r_user = Some u, r_profile = None\<rparr>], db)
           | Some p \<Rightarrow> ([\<lparr>monthly_income = Some (js_or_zero (p_monthly_income p)),
                           spending_limit = Some (js_or_zero (p_spending_limit p)),
                           financial_goals = js_or_null (p_financial_goals p),
                           r_user = Some u, r_profile = None\<rparr>], db)))"
    unfolding mock_select_stats
    by (simp add: no_inputs_def Let_def split: option.splits)
  with get_profile_live [of i db] mock_query_active [of db q ins newid' now']
  show ?thesis by blast
qed

theorem profile_lookup_witness:
  "get_profile Live ''u1'' alice_db =
     Inr \<lparr>pr_user = Some alice, pr_monthly_income = Some 0, pr_financial_goals = None,
          pr_spending_limit = Some 0\<rparr> \<and>
   mock_query (sql_text SelectStats) (no_inputs\<lparr>in_id := Some ''u1''\<rparr>) [] 0 alice_alone_db =
     ([\<lparr>monthly_income = Some 0, spending_limit = Some 0, financial_goals = None,
        r_user = Some alice, r_profile = None\<rparr>], alice_alone_db) \<and>
   list_all is_active (users (snd (mock_query (sql_text InsertUser) no_inputs ''u2'' 5 alice_db)))"
proof -
  have a: "\<forall>u\<in>set (users alice_db). is_active u"
    by (simp add: alice_db_def alice_def)
  have f1: "find (\<lambda>u. uid u = ''u1'' \<and> is_active u) (users alice_db) = Some alice"
    by (simp add: alice_db_def alice_def)
  have f2: "find (\<lambda>p. user_id p = ''u1'') (user_profiles alice_db) = Some alice_profile"
    by (simp add: alice_db_def alice_profile_def)
  have f3: "find (\<lambda>u. uid u = ''u1'') (users alice_alone_db) = Some alice"
    by (simp add: alice_alone_db_def alice_def)
  have f4: "find (\<lambda>p. user_id p = ''u1'') (user_profiles alice_alone_db) = None"
    by (simp add: alice_alone_db_def)
  from profile_lookup [of "''u1''" alice_db "[]" 0 "sql_text InsertUser" no_inputs "''u2''" 5]
  have "get_profile Live ''u1'' alice_db =
     Inr \<lparr>pr_user = Some alice, pr_monthly_income = Some 0, pr_financial_goals = None,
          pr_spending_limit = Some 0\<rparr>"
    and "list_all is_active (users (snd (mock_query (sql_text InsertUser) no_inputs ''u2'' 5 alice_db)))"
    unfolding f1 f2 using a by (simp_all add: alice_profile_def list_all_iff)
  moreover from profile_lookup [of "''u1''" alice_alone_db "[]" 0 "[]" no_inputs "[]" 0]
  have "mock_query (sql_text SelectStats) (no_inputs\<lparr>in_id := Some ''u1''\<rparr>) [] 0 alice_alone_db =
     ([\<lparr>monthly_income = Some 0, spending_limit = Some 0, financial_goals = None,
        r_user = Some alice, r_profile = None\<rparr>], alice_alone_db)"
    unfolding f3 f4 by simp
  ultimately show ?thesis by simp
qed

text \<open>
  C5 as stated fails twice: the live lookup of a user without profile row returns NULL,
  not 0, for income and limit; and the fallback takes the profile query for the lookup
  by email (its text contains SELECT, users and email), finds no user with an undefined
  email and answers 404 for a stored, active user.
\<close>

theorem profile_lookup_fails:
  "get_profile Live ''u1'' alice_alone_db =
     Inr \<lparr>pr_user = Some alice, pr_monthly_income = None, pr_financial_goals = None,
          pr_spending_limit = None\<rparr> \<and>
   get_profile Fallback ''u1'' alice_db = Inl NotFound \<and>
   users alice_db = [alice] \<and> uid alice = ''u1'' \<and> is_active alice"
proof -
  have "get_profile Live ''u1'' alice_alone_db =
     Inr \<lparr>pr_user = Some alice, pr_monthly_income = None, pr_financial_goals = None,
          pr_spending_limit = None\<rparr>"
    by (simp add: get_profile_def pool_query_def select_join_def left_join_def no_inputs_def
          alice_alone_db_def alice_def)
  moreover have "get_profile Fallback ''u1'' alice_db = Inl NotFound"
    unfolding get_profile_def pool_query_def mode.case mock_select_profile
    by (simp add: no_inputs_def alice_db_def)
  ultimately show ?thesis
    by (simp add: alice_db_def alice_def)
qed

section \<open>Profile update\<close>

lemma decimal_exact: "fits_decimal x \<Longrightarrow> decimal_10_2 x = Some x"
proof -
  assume "fits_decimal x"
  then have i: "x * 100 \<in> \<int>" and b: "\<bar>x\<bar> < 10 ^ 8"
    by (simp_all add: fits_decimal_def)
  from i obtain k :: int where k: "x * 100 = of_int k"
    by (auto elim: Ints_cases)
  have "round_half_away (of_int k :: rat) = k"
    unfolding round_half_away_def by (simp add: floor_add_int flip: of_int_minus; linarith?)
  with k have "of_int (round_half_away (x * 100)) / 100 = x"
    by simp
  with b show ?thesis
    by (simp add: decimal_10_2_def Let_def)
qed

lemma bind_decimal_fits:
  "(case f of Value x \<Rightarrow> fits_decimal x | _ \<Rightarrow> True) \<Longrightarrow> bind_decimal (to_sql f) = Inr (to_sql f)"
  by (cases f) (simp_all add: bind_decimal_def to_sql_def decimal_exact)

lemma bind_int_fits:
  "(case f of Value a \<Rightarrow> fits_int a | _ \<Rightarrow> True) \<Longrightarrow> bind_int (to_sql f) = Inr (to_sql f)"
  by (cases f) (simp_all add: bind_int_def to_sql_def)

lemma name_fits:
  "(case f of Value n \<Rightarrow> length n \<le> 255 | _ \<Rightarrow> True) \<Longrightarrow>
     \<not> (case to_sql f of Some n \<Rightarrow> length n > 255 \<and> Q | None \<Rightarrow> False)"
  by (cases f) (simp_all add: to_sql_def)

lemma put_profile_live:
  assumes "fits_columns b"
  shows "put_profile Live i b now db =
     (Inr (),
      db\<lparr>users := (if updates_user b
                 then map (\<lambda>u. if uid u = i
                                then u\<lparr>name := (case to_sql (pu_name b) of Some n \<Rightarrow> n | None \<Rightarrow> name u),
                                       age := coalesce (to_sql (pu_age b)) (age u),
                                       updated_at := Some now\<rparr>
                                else u) (users db)
                 else users db),
         user_profiles := (if updates_profile b
                 then map (\<lambda>p. if user_id p = i
                                then p\<lparr>p_monthly_income := coalesce (to_sql (pu_monthly_income b)) (p_monthly_income p),
                                       p_financial_goals := coalesce (to_sql (pu_financial_goals b)) (p_financial_goals p),
                                       p_spending_limit := coalesce (to_sql (pu_spending_limit b)) (p_spending_limit p),
                                       p_updated_at := Some now\<rparr>
                                else p) (user_profiles db)
                 else user_profiles db)\<rparr>)"
proof -
  from assms have a: "bind_int (to_sql (pu_age b)) = Inr (to_sql (pu_age b))"
    and m: "bind_decimal (to_sql (pu_monthly_income b)) = Inr (to_sql (pu_monthly_income b))"
    and s: "bind_decimal (to_sql (pu_spending_limit b)) = Inr (to_sql (pu_spending_limit b))"
    and n: "\<And>Q. \<not> (case to_sql (pu_name b) of Some n \<Rightarrow> length n > 255 \<and> Q | None \<Rightarrow> False)"
    by (simp_all add: fits_columns_def bind_int_fits bind_decimal_fits name_fits)
  show ?thesis
    by (simp add: put_profile_def pool_query_def no_inputs_def bind_err_def a m s n)
qed

lemma put_profile_fallback: "put_profile Fallback i b now db = (Inr (), db)"
  unfolding put_profile_def pool_query_def mode.case mock_update_user mock_update_profile
  by simp

lemma list_all2_map_same:
  "(\<And>x. x \<in> set xs \<Longrightarrow> P x (f x)) \<Longrightarrow> list_all2 P xs (map f xs)"
  by (simp add: list_all2_map2 list_all2_same)

text \<open>
  What the live store does with values that do not fit the types they are bound with: an
  age outside the 32-bit range and a name of 256 characters are refused and the route
  answers 500 with nothing written; an income with three decimals is stored rounded to
  two.
\<close>

lemma put_profile_live_unfit:
  "put_profile Live ''u1'' (no_update\<lparr>pu_age := Value 2147483648\<rparr>) 5000 alice_db =
     (Inl Internal, alice_db) \<and>
   put_profile Live ''u1'' (no_update\<lparr>pu_name := Value (replicate 256 (CHR ''b''))\<rparr>) 5000 alice_db =
     (Inl Internal, alice_db) \<and>
   put_profile Live ''u1'' (no_update\<lparr>pu_monthly_income := Value (1005 / 1000)\<rparr>) 5000 alice_db =
     (Inr (), alice_db\<lparr>user_profiles := [alice_profile\<lparr>p_monthly_income := Some (101 / 100),
                                                         p_updated_at := Some 5000\<rparr>]\<rparr>)"
proof -
  have d: "decimal_10_2 (201 / 200) = Some (101 / 100)"
    by code_simp
  show ?thesis
    by (simp add: put_profile_def pool_query_def no_inputs_def no_update_def updates_user_def
          updates_profile_def to_sql_def coalesce_def bind_err_def bind_int_def bind_decimal_def
          fits_int_def d alice_db_def alice_def alice_profile_def)
qed

text \<open>
  C6, as amended. In live mode, when the values provided fit the types of their columns
  (a name of at most 255 characters, a 32-bit age, amounts with at most two decimals
  and fewer than nine digits before the point), the update answers success and relates
  every row to its new value: the key columns and every field whose parameter is NULL
  (missing or null in the body) are unchanged, rows of other users are unchanged, and
  when a statement runs on a row of the user, the provided values are written and
  \<^verbatim>\<open>updated_at\<close> is the time of the update. In fallback mode the update answers success
  and the store is unchanged.
\<close>

theorem put_profile_merge:
  "(fits_columns b \<longrightarrow>
    (\<exists>db'. put_profile Live i b now db = (Inr (), db') \<and>
      email_collation db' = email_collation db \<and>
      list_all2 (\<lambda>u u'.
          uid u' = uid u \<and> email u' = email u \<and> password u' = password u \<and>
          created_at u' = created_at u \<and> is_active u' = is_active u \<and>
          (to_sql (pu_name b) = None \<longrightarrow> name u' = name u) \<and>
          (to_sql (pu_age b) = None \<longrightarrow> age u' = age u) \<and>
          (uid u \<noteq> i \<or> \<not> updates_user b \<longrightarrow> u' = u) \<and>
          (uid u = i \<and> updates_user b \<longrightarrow>
             updated_at u' = Some now \<and>
             (\<forall>n. pu_name b = Value n \<longrightarrow> name u' = n) \<and>
             (\<forall>a. pu_age b = Value a \<longrightarrow> age u' = Some a)))
        (users db) (users db') \<and>
      list_all2 (\<lambda>p p'.
          pid p' = pid p \<and> user_id p' = user_id p \<and>
          (to_sql (pu_monthly_income b) = None \<longrightarrow> p_monthly_income p' = p_monthly_income p) \<and>
          (to_sql (pu_financial_goals b) = None \<longrightarrow> p_financial_goals p' = p_financial_goals p) \<and>
          (to_sql (pu_spending_limit b) = None \<longrightarrow> p_spending_limit p' = p_spending_limit p) \<and>
          (user_id p \<noteq> i \<or> \<not> updates_profile b \<longrightarrow> p' = p) \<and>
          (user_id p = i \<and> updates_profile b \<longrightarrow>
             p_updated_at p' = Some now \<and>
             (\<forall>x. pu_monthly_income b = Value x \<longrightarrow> p_monthly_income p' = Some x) \<and>
             (\<forall>x. pu_financial_goals b = Value x \<longrightarrow> p_financial_goals p' = Some x) \<and>
             (\<forall>x. pu_spending_limit b = Value x \<longrightarrow> p_spending_limit p' = Some x)))
        (user_profiles db) (user_profiles db'))) \<and>
   put_profile Fallback i b now db = (Inr (), db)"
proof (intro conjI impI)
  assume fits: "fits_columns b"
  let ?fu = "\<lambda>u. if uid u = i \<and> updates_user b
                then u\<lparr>name := (case to_sql (pu_name b) of Some n \<Rightarrow> n | None \<Rightarrow> name u),
                       age := coalesce (to_sql (pu_age b)) (age u),
                       updated_at := Some now\<rparr>
                else u"
  let ?fp = "\<lambda>p. if user_id p = i \<and> updates_profile b
                then p\<lparr>p_monthly_income := coalesce (to_sql (pu_monthly_income b)) (p_monthly_income p),
                       p_financial_goals := coalesce (to_sql (pu_financial_goals b)) (p_financial_goals p),
                       p_spending_limit := coalesce (to_sql (pu_spending_limit b)) (p_spending_limit p),
                       p_updated_at := Some now\<rparr>
                else p"
  let ?db' = "db\<lparr>users := map ?fu (users db), user_profiles := map ?fp (user_profiles db)\<rparr>"
  have r: "put_profile Live i b now db = (Inr (), ?db')"
    unfolding put_profile_live [OF fits]
    by (cases "updates_user b"; cases "updates_profile b") simp_all
  have u: "list_all2 (\<lambda>u u'.
          uid u' = uid u \<and> email u' = email u \<and> password u' = password u \<and>
          created_at u' = created_at u \<and> is_active u' = is_active u \<and>
          (to_sql (pu_name b) = None \<longrightarrow> name u' = name u) \<and>
          (to_sql (pu_age b) = None \<longrightarrow> age u' = age u) \<and>
          (uid u \<noteq> i \<or> \<not> updates_user b \<longrightarrow> u' = u) \<and>
          (uid u = i \<and> updates_user b \<longrightarrow>
             updated_at u' = Some now \<and>
             (\<forall>n. pu_name b = Value n \<longrightarrow> name u' = n) \<and>
             (\<forall>a. pu_age b = Value a \<longrightarrow> age u' = Some a)))
        (users db) (map ?fu (users db))"
    by (rule list_all2_map_same) (auto simp: coalesce_def to_sql_def)
  have p: "list_all2 (\<lambda>p p'.
          pid p' = pid p \<and> user_id p' = user_id p \<and>
          (to_sql (pu_monthly_income b) = None \<longrightarrow> p_monthly_income p' = p_monthly_income p) \<and>
          (to_sql (pu_financial_goals b) = None \<longrightarrow> p_financial_goals p' = p_financial_goals p) \<and>
          (to_sql (pu_spending_limit b) = None \<longrightarrow> p_spending_limit p' = p_spending_limit p) \<and>
          (user_id p \<noteq> i \<or> \<not> updates_profile b \<longrightarrow> p' = p) \<and>
          (user_id p = i \<and> updates_profile b \<longrightarrow>
             p_updated_at p' = Some now \<and>
             (\<forall>x. pu_monthly_income b = Value x \<longrightarrow> p_monthly_income p' = Some x) \<and>
             (\<forall>x. pu_financial_goals b = Value x \<longrightarrow> p_financial_goals p' = Some x) \<and>
             (\<forall>x. pu_spending_limit b = Value x \<longrightarrow> p_spending_limit p' = Some x)))
        (user_profiles db) (map ?fp (user_profiles db))"
    by (rule list_all2_map_same) (auto simp: coalesce_def to_sql_def)
  from r u p show "\<exists>db'. put_profile Live i b now db = (Inr (), db') \<and>
      email_collation db' = email_collation db \<and>
      list_all2 (\<lambda>u u'.
          uid u' = uid u \<and> email u' = email u \<and> password u' = password u \<and>
          created_at u' = created_at u \<and> is_active u' = is_active u \<and>
          (to_sql (pu_name b) = None \<longrightarrow> name u' = name u) \<and>
          (to_sql (pu_age b) = None \<longrightarrow> age u' = age u) \<and>
          (uid u \<noteq> i \<or> \<not> updates_user b \<longrightarrow> u' = u) \<and>
          (uid u = i \<and> updates_user b \<longrightarrow>
             updated_at u' = Some now \<and>
             (\<forall>n. pu_name b = Value n \<longrightarrow> name u' = n) \<and>
             (\<forall>a. pu_age b = Value a \<longrightarrow> age u' = Some a)))
        (users db) (users db') \<and>
      list_all2 (\<lambda>p p'.
          pid p' = pid p \<and> user_id p' = user_id p \<and>
          (to_sql (pu_monthly_income b) = None \<longrightarrow> p_monthly_income p' = p_monthly_income p) \<and>
          (to_sql (pu_financial_goals b) = None \<longrightarrow> p_financial_goals p' = p_financial_goals p) \<and>
          (to_sql (pu_spending_limit b) = None \<longrightarrow> p_spending_limit p' = p_spending_limit p) \<and>
          (user_id p \<noteq> i \<or> \<not> updates_profile b \<longrightarrow> p' = p) \<and>
          (user_id p = i \<and> updates_profile b \<longrightarrow>
             p_updated_at p' = Some now \<and>
             (\<forall>x. pu_monthly_income b = Value x \<longrightarrow> p_monthly_income p' = Some x) \<and>
             (\<forall>x. pu_financial_goals b = Value x \<longrightarrow> p_financial_goals p' = Some x) \<and>
             (\<forall>x. pu_spending_limit b = Value x \<longrightarrow> p_spending_limit p' = Some x)))
        (user_profiles db) (user_profiles db')"
    by (intro exI [of _ ?db']) simp
next
  show "put_profile Fallback i b now db = (Inr (), db)"
    by (rule put_profile_fallback)
qed

theorem put_profile_merge_witness:
  "fits_columns rename_bob \<and>
   put_profile Live ''u1'' rename_bob 5000 alice_db =
     (Inr (), alice_db\<lparr>users := [alice\<lparr>name := ''Bob'', updated_at := Some 5000\<rparr>],
               user_profiles := [alice_profile\<lparr>p_monthly_income := Some 2500,
                                              p_updated_at := Some 5000\<rparr>]\<rparr>) \<and>
   put_profile Fallback ''u1'' rename_bob 5000 alice_db = (Inr (), alice_db)"
proof -
  have f: "fits_columns rename_bob"
    by (simp add: fits_columns_def rename_bob_def fits_decimal_def)
  have "put_profile Live ''u1'' rename_bob 5000 alice_db =
     (Inr (), alice_db\<lparr>users := [alice\<lparr>name := ''Bob'', updated_at := Some 5000\<rparr>],
               user_profiles := [alice_profile\<lparr>p_monthly_income := Some 2500,
                                              p_updated_at := Some 5000\<rparr>]\<rparr>)"
    unfolding put_profile_live [OF f]
    by (simp add: updates_user_def updates_profile_def rename_bob_def to_sql_def coalesce_def
          alice_db_def alice_def alice_profile_def)
  with f put_profile_merge [where b = rename_bob and i = "''u1''" and now = 5000 and db = alice_db]
  show ?thesis by blast
qed

text \<open>
  C6 as stated fails in fallback mode: the update statements match no branch of the mock
  pool, so a provided name is not written and no timestamp is set, while the route
  answers success.
\<close>

theorem fallback_update_ignored:
  "put_profile Fallback ''u1'' rename_bob 5000 alice_db = (Inr (), alice_db) \<and>
   users alice_db = [alice] \<and> uid alice = ''u1'' \<and>
   pu_name rename_bob = Value ''Bob'' \<and> name alice = ''Alice'' \<and> updated_at alice = None"
proof -
  have "put_profile Fallback ''u1'' rename_bob 5000 alice_db = (Inr (), alice_db)"
    unfolding put_profile_def pool_query_def mode.case mock_update_user mock_update_profile
    by simp
  then show ?thesis
    by (simp add: alice_db_def alice_def rename_bob_def)
qed

end
